theory Spec2Isabelle
  imports Complex_Main "HOL-Library.Sublist"
begin

section \<open>JavaScript values and strings\<close>

text \<open>
  The server is JavaScript. A JavaScript string is modelled as a \<^typ>\<open>string\<close>, one
  \<^typ>\<open>char\<close> per UTF-16 code unit, restricted to code units below 256 (Latin-1). On
  these strings the three string operations the server uses (\<^verbatim>\<open>toLowerCase\<close>,
  \<^verbatim>\<open>includes\<close>, \<^verbatim>\<open>trim\<close>) are modelled exactly.

  A number literal is modelled by its decimal value, a \<^typ>\<open>rat\<close>.
  Values exchanged with the collaborators (request bodies, completions, database rows) are
  JSON data.
\<close>

datatype jsval =
    JUndefined
  | JNull
  | JBool bool
  | JNum rat
  | JStr string
  | JArr "jsval list"
  | JObj "(string \<times> jsval) list"

text \<open>Truthiness, as tested by \<^verbatim>\<open>!x\<close>, \<^verbatim>\<open>if (x)\<close> and \<^verbatim>\<open>x || y\<close>.\<close>

fun truthy :: "jsval \<Rightarrow> bool" where
  "truthy JUndefined = False"
| "truthy JNull = False"
| "truthy (JBool b) = b"
| "truthy (JNum n) = (n \<noteq> 0)"
| "truthy (JStr s) = (s \<noteq> [])"
| "truthy (JArr xs) = True"
| "truthy (JObj kvs) = True"

text \<open>\<^verbatim>\<open>a || b\<close> and \<^verbatim>\<open>a ?? b\<close>.\<close>

definition js_or :: "jsval \<Rightarrow> jsval \<Rightarrow> jsval" where
  "js_or a b = (if truthy a then a else b)"

fun nullish :: "jsval \<Rightarrow> bool" where
  "nullish JUndefined = True"
| "nullish JNull = True"
| "nullish v = False"

definition js_nullish_or :: "jsval \<Rightarrow> jsval \<Rightarrow> jsval" where
  "js_nullish_or a b = (if nullish a then b else a)"

text \<open>
  \<^verbatim>\<open>v?.name\<close> for the data property names the server reads (\<^verbatim>\<open>choices\<close>,
  \<^verbatim>\<open>message\<close>, \<^verbatim>\<open>content\<close>, \<^verbatim>\<open>finish_reason\<close>, \<^verbatim>\<open>usage\<close>,
  \<^verbatim>\<open>total_tokens\<close>, \<^verbatim>\<open>nanoLimit\<close>, the fields of a request body): none of them is
  inherited from a prototype, so only an object that owns the key yields a value; on
  \<^verbatim>\<open>null\<close> and \<^verbatim>\<open>undefined\<close> the optional chain yields \<^verbatim>\<open>undefined\<close>.
\<close>

fun get_prop :: "jsval \<Rightarrow> string \<Rightarrow> jsval" where
  "get_prop (JObj kvs) k = (case map_of kvs k of Some v \<Rightarrow> v | None \<Rightarrow> JUndefined)"
| "get_prop v k = JUndefined"

text \<open>\<^verbatim>\<open>v?.[0]\<close>: the first element of an array, the first code unit of a string,
  the property \<^verbatim>\<open>"0"\<close> of an object.\<close>

fun index0 :: "jsval \<Rightarrow> jsval" where
  "index0 (JArr []) = JUndefined"
| "index0 (JArr (x # xs)) = x"
| "index0 (JStr []) = JUndefined"
| "index0 (JStr (c # cs)) = JStr [c]"
| "index0 (JObj kvs) = (case map_of kvs ''0'' of Some v \<Rightarrow> v | None \<Rightarrow> JUndefined)"
| "index0 v = JUndefined"

subsection \<open>String operations\<close>

text \<open>\<^verbatim>\<open>String.prototype.toLowerCase\<close> on code units below 256: the ASCII capitals and
  the Latin-1 capitals (all of 0xC0..0xDE but the multiplication sign 0xD7) move up by 32.\<close>

definition toLowerCase_char :: "char \<Rightarrow> char" where
  "toLowerCase_char c =
     (let n = (of_char c :: nat)
      in if (65 \<le> n \<and> n \<le> 90) \<or> (192 \<le> n \<and> n \<le> 222 \<and> n \<noteq> 215)
         then char_of (n + 32) else c)"

definition toLowerCase :: "string \<Rightarrow> string" where
  "toLowerCase s = map toLowerCase_char s"

text \<open>\<^verbatim>\<open>s.includes(p)\<close>: \<open>p\<close> occurs in \<open>s\<close> as a contiguous substring.\<close>

fun includes_str :: "string \<Rightarrow> string \<Rightarrow> bool" where
  "includes_str [] p = (p = [])"
| "includes_str (c # cs) p = (prefix p (c # cs) \<or> includes_str cs p)"

text \<open>\<^verbatim>\<open>String.prototype.trim\<close>: white space and line terminators below 256 are
  TAB, LF, VT, FF, CR, SPACE and NBSP.\<close>

definition is_space :: "char \<Rightarrow> bool" where
  "is_space c = ((of_char c :: nat) \<in> {9, 10, 11, 12, 13, 32, 160})"

definition trim :: "string \<Rightarrow> string" where
  "trim s = rev (dropWhile is_space (rev (dropWhile is_space s)))"

subsection \<open>Thrown values\<close>

text \<open>
  A thrown value is an error object with a string \<^verbatim>\<open>message\<close>: an \<^verbatim>\<open>Error\<close> (the
  client's rejections, \<^verbatim>\<open>new Error("empty_response")\<close>) or the \<^verbatim>\<open>TypeError\<close> of
  calling a method that is not there.
\<close>

datatype js_error = Error (message: string) | TypeError (message: string)

text \<open>\<^verbatim>\<open>content?.trim()\<close>: \<^verbatim>\<open>undefined\<close> on a nullish content, the trimmed string on
  a string, and a \<^verbatim>\<open>TypeError\<close> on any other value (JSON data has no callable
  \<^verbatim>\<open>trim\<close>). The wording of the message is the engine's.\<close>

definition trim_not_a_function :: js_error where
  "trim_not_a_function =
     TypeError ''completion?.choices?.[0]?.message?.content?.trim is not a function''"

fun call_trim :: "jsval \<Rightarrow> js_error + jsval" where
  "call_trim JUndefined = Inr JUndefined"
| "call_trim JNull = Inr JUndefined"
| "call_trim (JStr s) = Inr (JStr (trim s))"
| "call_trim v = Inl trim_not_a_function"

section \<open>Parameter builder\<close>

record chat_message =
  role :: string
  content :: jsval

text \<open>The request object; a field that the object literal does not have is \<open>None\<close>.\<close>

record request_params =
  model :: string
  messages :: "chat_message list"
  max_completion_tokens :: "jsval option"
  max_tokens :: "jsval option"
  temperature :: "jsval option"

text \<open>The test \<^verbatim>\<open>String(model || "").toLowerCase().includes("gpt-5-nano")\<close>, which
  \<^verbatim>\<open>buildParams\<close> and the retry loop both make.\<close>

definition is_nano :: "string \<Rightarrow> bool" where
  "is_nano m = includes_str (toLowerCase m) ''gpt-5-nano''"

text \<open>\<^verbatim>\<open>buildParams(model, userMessage, opts = {})\<close>; the options bag is an object,
  given by its properties.\<close>

definition buildParams :: "string \<Rightarrow> jsval \<Rightarrow> (string \<times> jsval) list \<Rightarrow> request_params" where
  "buildParams mdl userMessage opts =
     (let m = toLowerCase mdl in
      if includes_str m ''gpt-5-nano'' then
        (let nanoLimit = js_nullish_or (get_prop (JObj opts) ''nanoLimit'') (JNum 150) in
         \<lparr> model = mdl,
           messages =
             [\<lparr> role = ''system'',
                content = JStr ''You are a friendly Hinglish assistant. Keep responses short, clear, and conversational.'' \<rparr>,
              \<lparr> role = ''user'', content = userMessage \<rparr>],
           max_completion_tokens = Some nanoLimit,
           max_tokens = None,
           temperature = None \<rparr>)
      else
        \<lparr> model = mdl,
          messages =
            [\<lparr> role = ''system'',
               content = JStr ''You are a friendly Hinglish assistant. Answer clearly, simply, and conversationally under 400 words.'' \<rparr>,
             \<lparr> role = ''user'', content = userMessage \<rparr>],
          max_completion_tokens = None,
          max_tokens = Some (JNum 400),
          temperature = Some (JNum 1) \<rparr>)"

section \<open>Completion orchestrator\<close>

text \<open>
  The completion client \<^verbatim>\<open>openai.chat.completions.create\<close> is an external collaborator:
  a function of its own state \<open>'w\<close> (the provider, the network) and the request, which
  either rejects with an error or resolves to a completion, and leaves a new state.
\<close>

type_synonym 'w client = "'w \<Rightarrow> request_params \<Rightarrow> (js_error + jsval) \<times> 'w"

text \<open>The attempt descriptors; \<^verbatim>\<open>type\<close> is one of the strings \<^verbatim>\<open>"primary"\<close>,
  \<^verbatim>\<open>"nano-retry"\<close>, \<^verbatim>\<open>"fallback"\<close>.\<close>

datatype attempt_type = Primary | NanoRetry | Fallback

record attempt =
  attempt_model :: string
  attempt_type :: attempt_type
  attempt_nanoLimit :: jsval

text \<open>What the server writes to the console, one constructor per statement.\<close>

datatype log_entry =
    Log_configured_model string
  | Log_attempt nat request_params
  | Log_raw_response nat jsval
  | Log_returned_text string jsval
  | Warn_empty_content string jsval
  | Error_openai nat string js_error
  | Warn_invalid_model
  | Warn_unsupported
  | Log_incoming jsval jsval
  | Log_exceeded jsval int "int option"
  | Log_exceeded_user jsval
  | Log_raw jsval
  | Error_all_failed "js_error option"
  | Log_reply jsval jsval
  | Error_supabase_insert js_error
  | Error_addTokens js_error
  | Error_chat_endpoint js_error

text \<open>The object \<^verbatim>\<open>callOpenAIWithRetries\<close> returns; \<^verbatim>\<open>null\<close> is \<open>JNull\<close> for the
  completion and \<open>None\<close> for the other two (the success object has no \<^verbatim>\<open>lastError\<close>).\<close>

record orchestration_result =
  completion :: jsval
  modelUsed :: "string option"
  lastError :: "js_error option"

text \<open>
  The state of one run: the local variables \<^verbatim>\<open>lastError\<close> and \<^verbatim>\<open>completion\<close>, the
  console, the client's state, and the record of the calls made to the client, each with
  the request sent and what came back.
\<close>

record 'w run =
  cur_lastError :: "js_error option"
  cur_completion :: jsval
  calls :: "(request_params \<times> (js_error + jsval)) list"
  console :: "log_entry list"
  world :: 'w

definition say :: "log_entry \<Rightarrow> 'w run \<Rightarrow> 'w run" where
  "say e st = st\<lparr> console := console st @ [e] \<rparr>"

text \<open>\<^verbatim>\<open>completion?.choices?.[0]?.message?.content?.trim()\<close> and
  \<^verbatim>\<open>completion?.choices?.[0]?.finish_reason || "unknown"\<close>.\<close>

definition candidate_of :: "jsval \<Rightarrow> js_error + jsval" where
  "candidate_of c =
     call_trim (get_prop (get_prop (index0 (get_prop c ''choices'')) ''message'') ''content'')"

definition finishReason_of :: "jsval \<Rightarrow> jsval" where
  "finishReason_of c =
     js_or (get_prop (index0 (get_prop c ''choices'')) ''finish_reason'') (JStr ''unknown'')"

text \<open>The condition under which the loop skips an entry:
  \<^verbatim>\<open>attempt.type === "nano-retry" && !String(attempts[0].model).toLowerCase().includes("gpt-5-nano")\<close>.\<close>

definition skipped :: "attempt list \<Rightarrow> attempt \<Rightarrow> bool" where
  "skipped attempts a =
     (attempt_type a = NanoRetry
      \<and> \<not> includes_str (toLowerCase (attempt_model (attempts ! 0))) ''gpt-5-nano'')"

text \<open>The \<^verbatim>\<open>catch\<close> block: all three branches record the error and continue; they
  differ in the warning they print.\<close>

definition on_error :: "attempt \<Rightarrow> nat \<Rightarrow> js_error \<Rightarrow> 'w run \<Rightarrow> 'w run" where
  "on_error a i err st =
     (let st1 = say (Error_openai (i + 1) (attempt_model a) err) st;
          msg = toLowerCase (message err)
      in if (includes_str msg ''invalid model'' \<or> includes_str msg ''invalid model id''
             \<or> includes_str msg ''unknown model'') \<and> attempt_model a \<noteq> ''gpt-4o-mini''
         then (say Warn_invalid_model st1)\<lparr> cur_lastError := Some err \<rparr>
         else if includes_str msg ''unsupported parameter'' \<or> includes_str msg ''unsupported value''
         then (say Warn_unsupported st1)\<lparr> cur_lastError := Some err \<rparr>
         else st1\<lparr> cur_lastError := Some err \<rparr>)"

text \<open>One pass through the body of the \<^verbatim>\<open>for\<close> loop: it returns from the function,
  or goes on to the next index.\<close>

datatype 'w step = Returned orchestration_result "'w run" | Continue "'w run"

definition attempt_body ::
  "'w client \<Rightarrow> jsval \<Rightarrow> attempt list \<Rightarrow> nat \<Rightarrow> 'w run \<Rightarrow> 'w step" where
  "attempt_body openai userMessage attempts i st =
     (let a = attempts ! i in
      if skipped attempts a then Continue st
      else
        let params = buildParams (attempt_model a) userMessage [(''nanoLimit'', attempt_nanoLimit a)];
            st1 = say (Log_attempt (i + 1) params) st;
            (r, w') = openai (world st1) params;
            st2 = st1\<lparr> calls := calls st1 @ [(params, r)], world := w' \<rparr>
        in case r of
             Inl err \<Rightarrow> Continue (on_error a i err st2)
           | Inr c \<Rightarrow>
               let st3 = say (Log_raw_response (i + 1) c) (st2\<lparr> cur_completion := c \<rparr>) in
               (case candidate_of c of
                  Inl err \<Rightarrow> Continue (on_error a i err st3)
                | Inr candidate \<Rightarrow>
                    let finishReason = finishReason_of c in
                    if truthy candidate then
                      Returned \<lparr> completion = c, modelUsed = Some (model params), lastError = None \<rparr>
                               (say (Log_returned_text (model params) finishReason) st3)
                    else
                      Continue ((say (Warn_empty_content (model params) finishReason) st3)
                                  \<lparr> cur_lastError := Some (Error ''empty_response'') \<rparr>)))"

function attempt_loop ::
  "'w client \<Rightarrow> jsval \<Rightarrow> attempt list \<Rightarrow> nat \<Rightarrow> 'w run \<Rightarrow> orchestration_result \<times> 'w run" where
  "attempt_loop openai userMessage attempts i st =
     (if i < length attempts then
        (case attempt_body openai userMessage attempts i st of
           Returned res st' \<Rightarrow> (res, st')
         | Continue st' \<Rightarrow> attempt_loop openai userMessage attempts (i + 1) st')
      else (\<lparr> completion = JNull, modelUsed = None, lastError = cur_lastError st \<rparr>, st))"
  by pat_completeness auto
termination
  by (relation "measure (\<lambda>(openai, userMessage, attempts, i, st). length attempts - i)") auto

declare attempt_loop.simps [simp del]

text \<open>The three descriptors, in the order of the array literal.\<close>

definition attempts_of :: "string \<Rightarrow> attempt list" where
  "attempts_of configuredModel =
     [\<lparr> attempt_model = configuredModel, attempt_type = Primary, attempt_nanoLimit = JNum 150 \<rparr>,
      \<lparr> attempt_model = configuredModel, attempt_type = NanoRetry, attempt_nanoLimit = JNum 80 \<rparr>,
      \<lparr> attempt_model = ''gpt-4o-mini'', attempt_type = Fallback, attempt_nanoLimit = JNum 150 \<rparr>]"

text \<open>\<^verbatim>\<open>process.env.OPENAI_MODEL || "gpt-4o-mini"\<close>: an unset or empty variable gives the
  default.\<close>

definition configured_model :: "string option \<Rightarrow> string" where
  "configured_model env_OPENAI_MODEL =
     (case env_OPENAI_MODEL of
        None \<Rightarrow> ''gpt-4o-mini''
      | Some s \<Rightarrow> if s \<noteq> [] then s else ''gpt-4o-mini'')"

definition callOpenAIWithRetries ::
  "'w client \<Rightarrow> string option \<Rightarrow> jsval \<Rightarrow> 'w \<Rightarrow> orchestration_result \<times> 'w run" where
  "callOpenAIWithRetries openai env_OPENAI_MODEL userMessage w =
     (let configuredModel = configured_model env_OPENAI_MODEL;
          attempts = attempts_of configuredModel;
          st = \<lparr> cur_lastError = None, cur_completion = JNull, calls = [],
                 console = [Log_configured_model configuredModel], world = w \<rparr>
      in attempt_loop openai userMessage attempts 0 st)"

section \<open>Chat endpoint\<close>

text \<open>
  The collaborators of the handler of \<^verbatim>\<open>POST /api/chat\<close>. The completion client is the
  one above. The token ledger (\<^verbatim>\<open>getTokens\<close>, \<^verbatim>\<open>addTokens\<close> of
  \<^verbatim>\<open>utils/tokenManager.js\<close>) and the message store
  (\<^verbatim>\<open>supabase.from("messages").insert\<close>) are not part of the sources at hand: they are
  parameters, asynchronous functions that reject with an error or resolve to a value; the
  ledger's values are integers.
\<close>

record 'w collaborators =
  openai_create :: "'w client"
  getTokens :: "'w \<Rightarrow> jsval \<Rightarrow> (js_error + int) \<times> 'w"
  addTokens :: "'w \<Rightarrow> jsval \<Rightarrow> jsval \<Rightarrow> (js_error + int) \<times> 'w"
  insert_messages :: "'w \<Rightarrow> jsval list \<Rightarrow> (js_error + jsval) \<times> 'w"

text \<open>
  The configuration read from the environment: \<^verbatim>\<open>OPENAI_MODEL\<close> as set (or not), and
  \<^verbatim>\<open>FREE_TOKEN_LIMIT\<close> after \<^verbatim>\<open>parseInt\<close>, where \<open>None\<close> is \<^verbatim>\<open>NaN\<close> (a
  setting that is not a number).
\<close>

record config =
  OPENAI_MODEL :: "string option"
  FREE_TOKEN_LIMIT :: "int option"

text \<open>\<^verbatim>\<open>usedTokens >= FREE_TOKEN_LIMIT\<close>; every comparison with \<^verbatim>\<open>NaN\<close> is false.\<close>

definition js_ge :: "int \<Rightarrow> int option \<Rightarrow> bool" where
  "js_ge a b = (case b of None \<Rightarrow> False | Some c \<Rightarrow> a \<ge> c)"

text \<open>\<^verbatim>\<open>res.status(n).json(body)\<close>; \<^verbatim>\<open>res.json(body)\<close> has status 200.\<close>

datatype http_response = Json nat jsval

text \<open>What handling one request amounts to: the response sent, the calls made to the
  completion client, the console output, and the collaborators' state afterwards.\<close>

record 'w handled =
  response :: http_response
  client_calls :: "(request_params \<times> (js_error + jsval)) list"
  printed :: "log_entry list"
  final_world :: 'w

text \<open>\<^verbatim>\<open>String(err)\<close> and \<^verbatim>\<open>err?.message || String(err)\<close>.\<close>

definition String_of_error :: "js_error \<Rightarrow> string" where
  "String_of_error err =
     (case err of
        Error m \<Rightarrow> (if m = [] then ''Error'' else ''Error: '' @ m)
      | TypeError m \<Rightarrow> (if m = [] then ''TypeError'' else ''TypeError: '' @ m))"

definition details_of :: "js_error \<Rightarrow> string" where
  "details_of err = (if message err \<noteq> [] then message err else String_of_error err)"

text \<open>The outermost \<^verbatim>\<open>catch\<close> of the handler.\<close>

definition server_error ::
  "js_error \<Rightarrow> (request_params \<times> (js_error + jsval)) list \<Rightarrow> log_entry list \<Rightarrow> 'w \<Rightarrow> 'w handled" where
  "server_error err cs out w =
     \<lparr> response = Json 500 (JObj [(''error'', JStr ''server_error''),
                                  (''details'', JStr (details_of err))]),
       client_calls = cs,
       printed = out @ [Error_chat_endpoint err],
       final_world = w \<rparr>"

text \<open>The text put in place of an empty answer. The literal starts with an emoji, a
  character outside the code units modelled; it is left out.\<close>

definition empty_after_retries :: string where
  "empty_after_retries = '' Mujhe samajh nahi aaya (empty response after retries)''"

text \<open>\<^verbatim>\<open>completion?.choices?.[0]?.message?.content?.trim() || "..."\<close> and
  \<^verbatim>\<open>completion?.usage?.total_tokens || 0\<close>.\<close>

definition aiMessage_of :: "jsval \<Rightarrow> js_error + jsval" where
  "aiMessage_of c =
     (case candidate_of c of
        Inl err \<Rightarrow> Inl err
      | Inr text \<Rightarrow> Inr (js_or text (JStr empty_after_retries)))"

definition tokenCount_of :: "jsval \<Rightarrow> jsval" where
  "tokenCount_of c = js_or (get_prop (get_prop c ''usage'') ''total_tokens'') (JNum 0)"

text \<open>The two rows saved for an exchange.\<close>

definition message_rows :: "jsval \<Rightarrow> jsval \<Rightarrow> jsval \<Rightarrow> jsval \<Rightarrow> jsval list" where
  "message_rows sessionId msg aiMessage tokenCount =
     [JObj [(''session_id'', sessionId), (''role'', JStr ''user''), (''content'', msg)],
      JObj [(''session_id'', sessionId), (''role'', JStr ''assistant''),
            (''content'', aiMessage), (''tokens'', tokenCount)]]"

text \<open>\<^verbatim>\<open>const { userId, sessionId, tileId, message } = req.body\<close> throws on a body that is
  \<^verbatim>\<open>undefined\<close> or \<^verbatim>\<open>null\<close>.\<close>

definition cannot_destructure :: js_error where
  "cannot_destructure =
     TypeError ''Cannot destructure property 'userId' of 'req.body' as it is undefined.''"

text \<open>The handler of \<^verbatim>\<open>POST /api/chat\<close> that calls the orchestrator.\<close>

definition api_chat :: "'w collaborators \<Rightarrow> config \<Rightarrow> jsval \<Rightarrow> 'w \<Rightarrow> 'w handled" where
  "api_chat deps cfg body w =
     (if nullish body then server_error cannot_destructure [] [] w
      else
        let userId = get_prop body ''userId'';
            sessionId = get_prop body ''sessionId'';
            msg = get_prop body ''message''
        in
        if \<not> truthy userId \<or> \<not> truthy msg then
          \<lparr> response = Json 400 (JObj [(''error'', JStr ''Missing fields'')]),
            client_calls = [], printed = [], final_world = w \<rparr>
        else
          let out0 = [Log_incoming userId msg] in
          (case getTokens deps w userId of
             (Inl err, w1) \<Rightarrow> server_error err [] out0 w1
           | (Inr usedTokens, w1) \<Rightarrow>
               if js_ge usedTokens (FREE_TOKEN_LIMIT cfg) then
                 \<lparr> response = Json 402 (JObj [(''error'', JStr ''quota_exhausted'')]),
                   client_calls = [],
                   printed = out0 @ [Log_exceeded userId usedTokens (FREE_TOKEN_LIMIT cfg)],
                   final_world = w1 \<rparr>
               else
                 let (result, st) =
                       callOpenAIWithRetries (openai_create deps) (OPENAI_MODEL cfg) msg w1;
                     out1 = out0 @ console st;
                     w2 = world st;
                     c = completion result
                 in
                 if \<not> truthy c then
                   \<lparr> response =
                       Json 500
                         (JObj [(''error'', JStr ''model_failure''),
                                (''details'',
                                 JStr (case lastError result of
                                         None \<Rightarrow> ''no_response_from_model''
                                       | Some e \<Rightarrow> if message e \<noteq> [] then message e
                                                  else ''no_response_from_model''))]),
                     client_calls = calls st,
                     printed = out1 @ [Error_all_failed (lastError result)],
                     final_world = w2 \<rparr>
                 else
                   (case aiMessage_of c of
                      Inl err \<Rightarrow> server_error err (calls st) out1 w2
                    | Inr aiMessage \<Rightarrow>
                        let tokenCount = tokenCount_of c;
                            out2 = out1 @ [Log_reply aiMessage tokenCount];
                            (saved, w3) =
                              insert_messages deps w2 (message_rows sessionId msg aiMessage tokenCount);
                            out3 = (case saved of
                                      Inl dbErr \<Rightarrow> out2 @ [Error_supabase_insert dbErr]
                                    | Inr v \<Rightarrow> out2);
                            (added, w4) = addTokens deps w3 userId tokenCount;
                            out4 = (case added of
                                      Inl tokErr \<Rightarrow> out3 @ [Error_addTokens tokErr]
                                    | Inr n \<Rightarrow> out3);
                            (total, w5) = getTokens deps w4 userId;
                            totalTokens = (case total of
                                             Inl err \<Rightarrow> JNull
                                           | Inr n \<Rightarrow> JNum (of_int n))
                        in
                        \<lparr> response =
                            Json 200 (JObj [(''message'', aiMessage), (''tokensUsed'', tokenCount),
                                            (''totalTokens'', totalTokens)]),
                          client_calls = calls st,
                          printed = out4,
                          final_world = w5 \<rparr>)))"

subsection \<open>The handler of \<^verbatim>\<open>index.js\<close>\<close>

text \<open>
  \<^verbatim>\<open>index.js\<close> has a handler of the same route with no orchestrator: it builds the
  request in place, calls the client once, and saves the exchange with no \<^verbatim>\<open>try\<close> of
  its own around the writes.
\<close>

definition index_js_params :: "string \<Rightarrow> jsval \<Rightarrow> request_params" where
  "index_js_params modelToUse msg =
     (if includes_str modelToUse ''gpt-5-nano'' then
        \<lparr> model = modelToUse,
          messages =
            [\<lparr> role = ''system'',
               content = JStr ''You are a helpful Hinglish assistant. Keep replies short and clear.'' \<rparr>,
             \<lparr> role = ''user'', content = msg \<rparr>],
          max_completion_tokens = Some (JNum 400),
          max_tokens = None,
          temperature = None \<rparr>
      else
        \<lparr> model = modelToUse,
          messages =
            [\<lparr> role = ''system'',
               content = JStr ''You are a friendly Hinglish assistant. Answer clearly, simply, and conversationally under 400 words.'' \<rparr>,
             \<lparr> role = ''user'', content = msg \<rparr>],
          max_completion_tokens = None,
          max_tokens = Some (JNum 400),
          temperature = Some (JNum (8 / 10)) \<rparr>)"

definition empty_from_model :: string where
  "empty_from_model = '' Mujhe samajh nahi aaya (empty response from model)''"

text \<open>Its \<^verbatim>\<open>catch\<close> sends \<^verbatim>\<open>err.message\<close> as it is.\<close>

definition index_js_server_error ::
  "js_error \<Rightarrow> (request_params \<times> (js_error + jsval)) list \<Rightarrow> log_entry list \<Rightarrow> 'w \<Rightarrow> 'w handled" where
  "index_js_server_error err cs out w =
     \<lparr> response = Json 500 (JObj [(''error'', JStr ''server_error''),
                                  (''details'', JStr (message err))]),
       client_calls = cs,
       printed = out @ [Error_chat_endpoint err],
       final_world = w \<rparr>"

definition index_js_api_chat :: "'w collaborators \<Rightarrow> config \<Rightarrow> jsval \<Rightarrow> 'w \<Rightarrow> 'w handled" where
  "index_js_api_chat deps cfg body w =
     (let modelToUse = configured_model (OPENAI_MODEL cfg) in
      if nullish body then index_js_server_error cannot_destructure [] [] w
      else
        let userId = get_prop body ''userId'';
            sessionId = get_prop body ''sessionId'';
            msg = get_prop body ''message''
        in
        if \<not> truthy userId \<or> \<not> truthy msg then
          \<lparr> response = Json 400 (JObj [(''error'', JStr ''Missing fields'')]),
            client_calls = [], printed = [], final_world = w \<rparr>
        else
          let out0 = [Log_incoming userId msg] in
          (case getTokens deps w userId of
             (Inl err, w1) \<Rightarrow> index_js_server_error err [] out0 w1
           | (Inr usedTokens, w1) \<Rightarrow>
               if js_ge usedTokens (FREE_TOKEN_LIMIT cfg) then
                 \<lparr> response = Json 402 (JObj [(''error'', JStr ''quota_exhausted'')]),
                   client_calls = [],
                   printed = out0 @ [Log_exceeded_user userId],
                   final_world = w1 \<rparr>
               else
                 let params = index_js_params modelToUse msg in
                 (case openai_create deps w1 params of
                    (Inl err, w2) \<Rightarrow> index_js_server_error err [(params, Inl err)] out0 w2
                  | (Inr c, w2) \<Rightarrow>
                      let cs = [(params, Inr c)];
                          out1 = out0 @ [Log_raw c]
                      in
                      (case candidate_of c of
                         Inl err \<Rightarrow> index_js_server_error err cs out1 w2
                       | Inr text \<Rightarrow>
                           let aiMessage = js_or text (JStr empty_from_model);
                               tokenCount = tokenCount_of c;
                               out2 = out1 @ [Log_reply aiMessage tokenCount]
                           in
                           (case insert_messages deps w2
                                   (message_rows sessionId msg aiMessage tokenCount) of
                              (Inl err, w3) \<Rightarrow> index_js_server_error err cs out2 w3
                            | (Inr v, w3) \<Rightarrow>
                                (case addTokens deps w3 userId tokenCount of
                                   (Inl err, w4) \<Rightarrow> index_js_server_error err cs out2 w4
                                 | (Inr newTotal, w4) \<Rightarrow>
                                     \<lparr> response =
                                         Json 200 (JObj [(''message'', aiMessage),
                                                         (''tokensUsed'', tokenCount),
                                                         (''totalTokens'', JNum (of_int newTotal))]),
                                       client_calls = cs,
                                       printed = out2,
                                       final_world = w4 \<rparr>))))))"

section \<open>Notions used to state the properties\<close>

text \<open>The request the loop builds for an entry.\<close>

definition request_for :: "jsval \<Rightarrow> attempt \<Rightarrow> request_params" where
  "request_for userMessage a =
     buildParams (attempt_model a) userMessage [(''nanoLimit'', attempt_nanoLimit a)]"

text \<open>The attempt plan: the entries of the array that the loop does not skip.\<close>

definition plan :: "string \<Rightarrow> attempt list" where
  "plan configuredModel =
     filter (\<lambda>a. \<not> skipped (attempts_of configuredModel) a) (attempts_of configuredModel)"

text \<open>
  What came back from a call is a non-empty success when the client resolved and the text
  extracted from the completion is truthy. Anything else is a soft failure, and
  \<open>recorded_condition\<close> is the error the loop then stores in \<^verbatim>\<open>lastError\<close>: the error
  thrown, or \<^verbatim>\<open>new Error("empty_response")\<close>.
\<close>

fun nonempty_success :: "js_error + jsval \<Rightarrow> bool" where
  "nonempty_success (Inl err) = False"
| "nonempty_success (Inr c) = (case candidate_of c of Inl err \<Rightarrow> False | Inr text \<Rightarrow> truthy text)"

fun recorded_condition :: "js_error + jsval \<Rightarrow> js_error" where
  "recorded_condition (Inl err) = err"
| "recorded_condition (Inr c) =
     (case candidate_of c of Inl err \<Rightarrow> err | Inr text \<Rightarrow> Error ''empty_response'')"

text \<open>A completion whose extracted text is empty: no content, or only white space.\<close>

definition empty_text :: "jsval \<Rightarrow> bool" where
  "empty_text c = (case candidate_of c of Inl err \<Rightarrow> False | Inr text \<Rightarrow> \<not> truthy text)"

text \<open>
  The state machine of the design, told over a plan: for each entry in order, build the
  request, call the client, and stop at the first non-empty success; every soft failure
  records its condition and moves on; at the end of the plan the result is the exhausted
  one. It returns the result, the calls made and the client's state.
\<close>

fun walk :: "'w client \<Rightarrow> jsval \<Rightarrow> attempt list \<Rightarrow> js_error option \<Rightarrow> 'w
               \<Rightarrow> orchestration_result \<times> (request_params \<times> (js_error + jsval)) list \<times> 'w" where
  "walk openai um [] le w = (\<lparr> completion = JNull, modelUsed = None, lastError = le \<rparr>, [], w)"
| "walk openai um (a # as) le w =
     (let p = request_for um a; (r, w') = openai w p in
      if nonempty_success r then
        (\<lparr> completion = (case r of Inr c \<Rightarrow> c | Inl err \<Rightarrow> JNull),
           modelUsed = Some (attempt_model a), lastError = None \<rparr>, [(p, r)], w')
      else
        (let (res, cs, w'') = walk openai um as (Some (recorded_condition r)) w'
         in (res, (p, r) # cs, w'')))"

text \<open>
  A result is well formed when it is one of the two shapes the caller tells apart: a
  success, with a completion and the model that gave it, or the exhausted result, with
  neither and the last condition recorded.
\<close>

definition well_formed :: "orchestration_result \<Rightarrow> bool" where
  "well_formed res =
     (if truthy (completion res) then modelUsed res \<noteq> None \<and> lastError res = None
      else completion res = JNull \<and> modelUsed res = None \<and> lastError res \<noteq> None)"



subsection \<open>Client stubs\<close>

text \<open>A client that plays a script: each call gets the next outcome of the list.\<close>

definition stub_client :: "(js_error + jsval) list client" where
  "stub_client w p =
     (case w of
        [] \<Rightarrow> (Inl (Error ''no scripted outcome left''), [])
      | r # rs \<Rightarrow> (r, rs))"

text \<open>A client that always resolves to the same completion.\<close>

definition always_client :: "jsval \<Rightarrow> unit client" where
  "always_client c w p = (Inr c, w)"

text \<open>A completion of the provider's shape with the given text and token count.\<close>

definition completion_with :: "string \<Rightarrow> rat \<Rightarrow> jsval" where
  "completion_with s n =
     JObj [(''choices'',
            JArr [JObj [(''message'', JObj [(''role'', JStr ''assistant''), (''content'', JStr s)]),
                        (''finish_reason'', JStr ''stop'')]]),
           (''usage'', JObj [(''total_tokens'', JNum n)])]"

text \<open>Collaborators over a scripted client: a ledger that reports a fixed usage, and a
  message store and a ledger update that succeed or fail as told.\<close>

definition fixed_collaborators ::
  "int \<Rightarrow> bool \<Rightarrow> bool \<Rightarrow> (js_error + jsval) list collaborators" where
  "fixed_collaborators used insert_fails add_fails =
     \<lparr> openai_create = stub_client,
       getTokens = (\<lambda>w userId. (Inr used, w)),
       addTokens = (\<lambda>w userId n.
                      (if add_fails then Inl (Error ''ledger down'') else Inr used, w)),
       insert_messages = (\<lambda>w rows.
                      (if insert_fails then Inl (Error ''db down'') else Inr JNull, w)) \<rparr>"

subsection \<open>The calls as a chain\<close>

text \<open>
  The state \<open>'w\<close> of the client stands for everything outside the server: the provider,
  the network, the clock. The calls recorded for a run form a chain from \<open>w\<close> to \<open>w'\<close>
  when each reply is what the client answers to the recorded request in the state the
  call before left (the first one in \<open>w\<close>), and \<open>w'\<close> is the state the last call left.
  Then nothing but the recorded calls has acted on the outside between \<open>w\<close> and \<open>w'\<close>.
\<close>

fun replays :: "'w client \<Rightarrow> 'w \<Rightarrow> (request_params \<times> (js_error + jsval)) list \<Rightarrow> 'w \<Rightarrow> bool" where
  "replays openai w [] w' = (w' = w)"
| "replays openai w ((p, r) # cs) w' =
     (case openai w p of (r', w1) \<Rightarrow> r' = r \<and> replays openai w1 cs w')"

text \<open>A client that rejects every request with the same error.\<close>

definition throwing_client :: "js_error \<Rightarrow> unit client" where
  "throwing_client err w p = (Inl err, w)"

text \<open>A scripted client with a clock: every call takes one tick.\<close>

definition clocked_client :: "(nat \<times> (js_error + jsval) list) client" where
  "clocked_client w p =
     (case snd w of
        [] \<Rightarrow> (Inl (Error ''no scripted outcome left''), (fst w + 1, []))
      | r # rs \<Rightarrow> (r, (fst w + 1, rs)))"

subsection \<open>The loop with its exceptions\<close>

text \<open>
  The same function once more, with the exceptions of JavaScript kept as values, so that
  an error leaving the function can be told from a returned result. The \<^verbatim>\<open>try\<close> block
  either throws, in the state reached at the throw (the rejection of the awaited call,
  or the \<^verbatim>\<open>TypeError\<close> of \<^verbatim>\<open>trim\<close>), or ends in a \<^verbatim>\<open>return\<close> or a
  \<^verbatim>\<open>continue\<close>. The \<^verbatim>\<open>catch\<close> block has no \<^verbatim>\<open>throw\<close>: each of its branches ends in
  \<^verbatim>\<open>continue\<close>. An \<open>Inl\<close> of the loop or of the function is an error that was not
  caught.
\<close>

definition try_block ::
  "'w client \<Rightarrow> nat \<Rightarrow> request_params \<Rightarrow> 'w run \<Rightarrow> (js_error \<times> 'w run) + 'w step" where
  "try_block openai i params st =
     (let st1 = say (Log_attempt (i + 1) params) st;
          (r, w') = openai (world st1) params;
          st2 = st1\<lparr> calls := calls st1 @ [(params, r)], world := w' \<rparr>
      in case r of
           Inl err \<Rightarrow> Inl (err, st2)
         | Inr c \<Rightarrow>
             let st3 = say (Log_raw_response (i + 1) c) (st2\<lparr> cur_completion := c \<rparr>) in
             (case candidate_of c of
                Inl err \<Rightarrow> Inl (err, st3)
              | Inr candidate \<Rightarrow>
                  let finishReason = finishReason_of c in
                  if truthy candidate then
                    Inr (Returned \<lparr> completion = c, modelUsed = Some (model params),
                                    lastError = None \<rparr>
                                  (say (Log_returned_text (model params) finishReason) st3))
                  else
                    Inr (Continue ((say (Warn_empty_content (model params) finishReason) st3)
                                     \<lparr> cur_lastError := Some (Error ''empty_response'') \<rparr>))))"

definition catch_block :: "attempt \<Rightarrow> nat \<Rightarrow> js_error \<Rightarrow> 'w run \<Rightarrow> js_error + 'w step" where
  "catch_block a i err st = Inr (Continue (on_error a i err st))"

definition loop_body ::
  "'w client \<Rightarrow> jsval \<Rightarrow> attempt list \<Rightarrow> nat \<Rightarrow> 'w run \<Rightarrow> js_error + 'w step" where
  "loop_body openai userMessage attempts i st =
     (let a = attempts ! i in
      if skipped attempts a then Inr (Continue st)
      else
        let params = buildParams (attempt_model a) userMessage [(''nanoLimit'', attempt_nanoLimit a)]
        in case try_block openai i params st of
             Inl (err, st') \<Rightarrow> catch_block a i err st'
           | Inr s \<Rightarrow> Inr s)"

function retry_loop ::
  "'w client \<Rightarrow> jsval \<Rightarrow> attempt list \<Rightarrow> nat \<Rightarrow> 'w run
     \<Rightarrow> js_error + orchestration_result \<times> 'w run" where
  "retry_loop openai userMessage attempts i st =
     (if i < length attempts then
        (case loop_body openai userMessage attempts i st of
           Inl err \<Rightarrow> Inl err
         | Inr (Returned res st') \<Rightarrow> Inr (res, st')
         | Inr (Continue st') \<Rightarrow> retry_loop openai userMessage attempts (i + 1) st')
      else Inr (\<lparr> completion = JNull, modelUsed = None, lastError = cur_lastError st \<rparr>, st))"
  by pat_completeness auto
termination
  by (relation "measure (\<lambda>(openai, userMessage, attempts, i, st). length attempts - i)") auto

declare retry_loop.simps [simp del]

definition callOpenAIWithRetries_throwing ::
  "'w client \<Rightarrow> string option \<Rightarrow> jsval \<Rightarrow> 'w \<Rightarrow> js_error + orchestration_result \<times> 'w run" where
  "callOpenAIWithRetries_throwing openai env_OPENAI_MODEL userMessage w =
     (let configuredModel = configured_model env_OPENAI_MODEL;
          attempts = attempts_of configuredModel;
          st = \<lparr> cur_lastError = None, cur_completion = JNull, calls = [],
                 console = [Log_configured_model configuredModel], world = w \<rparr>
      in retry_loop openai userMessage attempts 0 st)"

section \<open>The loop and the walk over the plan\<close>

lemma model_buildParams [simp]: "model (buildParams m um opts) = m"
  by (simp add: buildParams_def Let_def)

lemma on_error_fields [simp]:
  "cur_lastError (on_error a i err st) = Some err"
  "calls (on_error a i err st) = calls st"
  "world (on_error a i err st) = world st"
  "cur_completion (on_error a i err st) = cur_completion st"
  by (simp_all add: on_error_def say_def Let_def)

lemma say_fields [simp]:
  "cur_lastError (say e st) = cur_lastError st"
  "calls (say e st) = calls st"
  "world (say e st) = world st"
  "cur_completion (say e st) = cur_completion st"
  "console (say e st) = console st @ [e]"
  by (simp_all add: say_def)

lemma attempt_body_skip:
  "skipped attempts (attempts ! i) \<Longrightarrow> attempt_body openai um attempts i st = Continue st"
  by (simp add: attempt_body_def)

lemma attempt_body_call:
  assumes "\<not> skipped attempts (attempts ! i)"
    and "openai (world st) (request_for um (attempts ! i)) = (r, w')"
  shows "case attempt_body openai um attempts i st of
           Returned res st' \<Rightarrow>
             nonempty_success r \<and> r = Inr (completion res)
             \<and> modelUsed res = Some (attempt_model (attempts ! i)) \<and> lastError res = None
             \<and> calls st' = calls st @ [(request_for um (attempts ! i), r)] \<and> world st' = w'
         | Continue st' \<Rightarrow>
             \<not> nonempty_success r \<and> cur_lastError st' = Some (recorded_condition r)
             \<and> calls st' = calls st @ [(request_for um (attempts ! i), r)] \<and> world st' = w'"
  using assms
  by (auto simp: attempt_body_def Let_def request_for_def split: sum.splits)

lemma loop_walk:
  "attempt_loop openai um attempts i st = (res, st') \<Longrightarrow>
   \<exists>new. walk openai um (filter (\<lambda>a. \<not> skipped attempts a) (drop i attempts))
                 (cur_lastError st) (world st) = (res, new, world st')
         \<and> calls st' = calls st @ new"
proof (induction openai um attempts i st rule: attempt_loop.induct)
  case (1 openai um attempts i st)
  show ?case
  proof (cases "i < length attempts")
    case False
    with "1.prems" show ?thesis by (auto simp: attempt_loop.simps)
  next
    case True
    then have dr: "drop i attempts = attempts ! i # drop (Suc i) attempts"
      by (simp add: Cons_nth_drop_Suc)
    show ?thesis
    proof (cases "skipped attempts (attempts ! i)")
      case sk: True
      then have b: "attempt_body openai um attempts i st = Continue st"
        by (rule attempt_body_skip)
      with True "1.prems" have "attempt_loop openai um attempts (i + 1) st = (res, st')"
        by (simp add: attempt_loop.simps)
      from "1.IH"[OF True b this] sk dr show ?thesis by simp
    next
      case ns: False
      obtain r w' where o: "openai (world st) (request_for um (attempts ! i)) = (r, w')"
        by (cases "openai (world st) (request_for um (attempts ! i))")
      have bc: "case attempt_body openai um attempts i st of
           Returned res st' \<Rightarrow>
             nonempty_success r \<and> r = Inr (completion res)
             \<and> modelUsed res = Some (attempt_model (attempts ! i)) \<and> lastError res = None
             \<and> calls st' = calls st @ [(request_for um (attempts ! i), r)] \<and> world st' = w'
         | Continue st' \<Rightarrow>
             \<not> nonempty_success r \<and> cur_lastError st' = Some (recorded_condition r)
             \<and> calls st' = calls st @ [(request_for um (attempts ! i), r)] \<and> world st' = w'"
        using ns o by (rule attempt_body_call)
      show ?thesis
      proof (cases "attempt_body openai um attempts i st")
        case (Returned res1 st1)
        with True "1.prems" have e: "res1 = res" "st1 = st'"
          by (simp_all add: attempt_loop.simps)
        from bc Returned e ns dr o show ?thesis by (auto simp: Let_def)
      next
        case (Continue st1)
        with True "1.prems" have l: "attempt_loop openai um attempts (i + 1) st1 = (res, st')"
          by (simp add: attempt_loop.simps)
        from "1.IH"[OF True Continue l] obtain new where
          n: "walk openai um (filter (\<lambda>a. \<not> skipped attempts a) (drop (i + 1) attempts))
                 (cur_lastError st1) (world st1) = (res, new, world st')"
             "calls st' = calls st1 @ new" by blast
        from bc Continue n ns dr o show ?thesis by (auto simp: Let_def)
      qed
    qed
  qed
qed


lemma walk_Cons_cases:
  assumes "walk openai um (a # as) le w = (res, cs, w')"
  obtains (stop) r where "openai w (request_for um a) = (r, w')" "nonempty_success r"
      "cs = [(request_for um a, r)]"
      "res = \<lparr> completion = (case r of Inr c \<Rightarrow> c | Inl err \<Rightarrow> JNull),
                modelUsed = Some (attempt_model a), lastError = None \<rparr>"
  | (go) r w1 cs' where "openai w (request_for um a) = (r, w1)" "\<not> nonempty_success r"
      "walk openai um as (Some (recorded_condition r)) w1 = (res, cs', w')"
      "cs = (request_for um a, r) # cs'"
  using assms by (auto simp: Let_def split: if_splits prod.splits)

lemma walk_nonempty: "walk openai um as le w = (res, cs, w') \<Longrightarrow> as \<noteq> [] \<Longrightarrow> cs \<noteq> []"
proof (cases as)
  case Nil
  then show "walk openai um as le w = (res, cs, w') \<Longrightarrow> as \<noteq> [] \<Longrightarrow> cs \<noteq> []" by simp
next
  case (Cons a list)
  assume "walk openai um as le w = (res, cs, w')"
  with Cons have "walk openai um (a # list) le w = (res, cs, w')" by simp
  then show "cs \<noteq> []" by (cases rule: walk_Cons_cases) simp_all
qed

lemma walk_length: "walk openai um as le w = (res, cs, w') \<Longrightarrow> length cs \<le> length as"
proof (induction as arbitrary: le w cs)
  case Nil
  then show ?case by simp
next
  case (Cons a as)
  from Cons.prems show ?case
  proof (cases rule: walk_Cons_cases)
    case (stop r)
    then show ?thesis by simp
  next
    case (go r w1 cs')
    with Cons.IH[OF go(3)] show ?thesis by simp
  qed
qed

lemma walk_requests:
  "walk openai um as le w = (res, cs, w') \<Longrightarrow>
   map fst cs = map (request_for um) (take (length cs) as)"
proof (induction as arbitrary: le w cs)
  case Nil
  then show ?case by simp
next
  case (Cons a as)
  from Cons.prems show ?case
  proof (cases rule: walk_Cons_cases)
    case (stop r)
    then show ?thesis by simp
  next
    case (go r w1 cs')
    with Cons.IH[OF go(3)] show ?thesis by simp
  qed
qed

lemma walk_earlier:
  "walk openai um as le w = (res, cs, w') \<Longrightarrow> x \<in> set (butlast cs) \<Longrightarrow> \<not> nonempty_success (snd x)"
proof (induction as arbitrary: le w cs)
  case Nil
  then show ?case by simp
next
  case (Cons a as)
  from Cons.prems(1) show ?case
  proof (cases rule: walk_Cons_cases)
    case (stop r)
    with Cons.prems(2) show ?thesis by simp
  next
    case (go r w1 cs')
    show ?thesis
    proof (cases "cs' = []")
      case True
      with go Cons.prems(2) show ?thesis by simp
    next
      case False
      with go Cons.prems(2) have "x = (request_for um a, r) \<or> x \<in> set (butlast cs')" by simp
      with go(2) Cons.IH[OF go(3)] show ?thesis by auto
    qed
  qed
qed

lemma walk_success:
  "walk openai um as le w = (res, cs, w') \<Longrightarrow> cs \<noteq> [] \<Longrightarrow> nonempty_success (snd (last cs)) \<Longrightarrow>
   snd (last cs) = Inr (completion res) \<and> modelUsed res = Some (model (fst (last cs)))
   \<and> lastError res = None"
proof (induction as arbitrary: le w cs)
  case Nil
  then show ?case by simp
next
  case (Cons a as)
  from Cons.prems(1) show ?case
  proof (cases rule: walk_Cons_cases)
    case (stop r)
    then show ?thesis by (cases r) (simp_all add: request_for_def)
  next
    case (go r w1 cs')
    with Cons.prems have ne: "cs' \<noteq> []" by auto
    with go Cons.prems have "nonempty_success (snd (last cs'))" by simp
    from Cons.IH[OF go(3) ne this] go ne show ?thesis by simp
  qed
qed

lemma walk_exhausted:
  "walk openai um as le w = (res, cs, w') \<Longrightarrow> cs = [] \<or> \<not> nonempty_success (snd (last cs)) \<Longrightarrow>
   length cs = length as \<and> completion res = JNull \<and> modelUsed res = None
   \<and> lastError res = (if cs = [] then le else Some (recorded_condition (snd (last cs))))"
proof (induction as arbitrary: le w cs)
  case Nil
  then show ?case by auto
next
  case (Cons a as)
  from Cons.prems(1) show ?case
  proof (cases rule: walk_Cons_cases)
    case (stop r)
    with Cons.prems(2) show ?thesis by simp
  next
    case (go r w1 cs')
    with Cons.prems(2) have "cs' = [] \<or> \<not> nonempty_success (snd (last cs'))" by auto
    from Cons.IH[OF go(3) this] go show ?thesis by auto
  qed
qed

lemma nonempty_success_text:
  assumes "nonempty_success (Inr c)"
  shows "\<exists>t. t \<noteq> [] \<and> candidate_of c = Inr (JStr t)"
proof -
  obtain v where v: "candidate_of c = Inr v" "truthy v"
    using assms by (auto split: sum.splits)
  then show ?thesis
    unfolding candidate_of_def
    by (cases "get_prop (get_prop (index0 (get_prop c ''choices'')) ''message'') ''content''")
       (auto)
qed

lemma nonempty_success_truthy:
  assumes "nonempty_success (Inr c)"
  shows "truthy c"
  using assms by (cases c) (auto simp: candidate_of_def)

lemma plan_nano:
  "is_nano cm \<Longrightarrow> plan cm =
     [\<lparr> attempt_model = cm, attempt_type = Primary, attempt_nanoLimit = JNum 150 \<rparr>,
      \<lparr> attempt_model = cm, attempt_type = NanoRetry, attempt_nanoLimit = JNum 80 \<rparr>,
      \<lparr> attempt_model = ''gpt-4o-mini'', attempt_type = Fallback, attempt_nanoLimit = JNum 150 \<rparr>]"
  by (simp add: plan_def attempts_of_def skipped_def is_nano_def)

lemma plan_not_nano:
  "\<not> is_nano cm \<Longrightarrow> plan cm =
     [\<lparr> attempt_model = cm, attempt_type = Primary, attempt_nanoLimit = JNum 150 \<rparr>,
      \<lparr> attempt_model = ''gpt-4o-mini'', attempt_type = Fallback, attempt_nanoLimit = JNum 150 \<rparr>]"
  by (simp add: plan_def attempts_of_def skipped_def is_nano_def)

lemma run_walk:
  assumes "callOpenAIWithRetries openai env um w = (res, st)"
  shows "walk openai um (plan (configured_model env)) None w = (res, calls st, world st)"
proof -
  from assms have "attempt_loop openai um (attempts_of (configured_model env)) 0
     \<lparr> cur_lastError = None, cur_completion = JNull, calls = [],
       console = [Log_configured_model (configured_model env)], world = w \<rparr> = (res, st)"
    by (simp add: callOpenAIWithRetries_def Let_def)
  from loop_walk[OF this] show ?thesis by (simp add: plan_def)
qed

lemma empty_text_soft: "empty_text c \<Longrightarrow> \<not> nonempty_success (Inr c)"
  by (simp add: empty_text_def split: sum.splits)

lemma empty_text_condition: "empty_text c \<Longrightarrow> recorded_condition (Inr c) = Error ''empty_response''"
  by (simp add: empty_text_def split: sum.splits)

lemma candidate_of_completion_with [simp]:
  "candidate_of (completion_with s n) = Inr (JStr (trim s))"
  by (simp add: candidate_of_def completion_with_def)

lemma is_nano_gpt_5_nano: "is_nano ''gpt-5-nano''"
  by code_simp

lemma not_is_nano_gpt_4o_mini: "\<not> is_nano ''gpt-4o-mini''"
  by code_simp

lemma trim_examples: "trim [] = []" "trim ''   '' = []" "trim '' Namaste '' = ''Namaste''"
  by (simp_all add: trim_def is_space_def)


lemma walk_stub_stop:
  "nonempty_success (Inr c) \<Longrightarrow>
   walk stub_client um (a # as) le (Inr c # rs) =
     (\<lparr> completion = c, modelUsed = Some (attempt_model a), lastError = None \<rparr>,
      [(request_for um a, Inr c)], rs)"
  by (simp add: Let_def stub_client_def)

lemma model_request_for: "model (request_for um a) = attempt_model a"
  by (simp add: request_for_def)

lemma run_general:
  assumes "callOpenAIWithRetries openai env um w = (res, st)"
  shows "1 \<le> length (calls st) \<and> length (calls st) \<le> length (plan (configured_model env))
    \<and> map fst (calls st)
        = map (request_for um) (take (length (calls st)) (plan (configured_model env)))
    \<and> (\<forall>x \<in> set (butlast (calls st)). \<not> nonempty_success (snd x))
    \<and> (nonempty_success (snd (last (calls st))) \<longrightarrow>
          snd (last (calls st)) = Inr (completion res)
          \<and> modelUsed res = Some (model (fst (last (calls st)))) \<and> lastError res = None)
    \<and> (\<not> nonempty_success (snd (last (calls st))) \<longrightarrow>
          length (calls st) = length (plan (configured_model env))
          \<and> completion res = JNull \<and> modelUsed res = None
          \<and> lastError res = Some (recorded_condition (snd (last (calls st)))))"
proof -
  let ?as = "plan (configured_model env)"
  have w: "walk openai um ?as None w = (res, calls st, world st)"
    using assms by (rule run_walk)
  have "?as \<noteq> []" by (cases "is_nano (configured_model env)") (simp_all add: plan_nano plan_not_nano)
  with w have ne: "calls st \<noteq> []" by (rule walk_nonempty)
  then have "1 \<le> length (calls st)" by (cases "calls st") simp_all
  moreover from w have "length (calls st) \<le> length ?as" by (rule walk_length)
  moreover from w have "map fst (calls st) = map (request_for um) (take (length (calls st)) ?as)"
    by (rule walk_requests)
  moreover from w have "\<forall>x \<in> set (butlast (calls st)). \<not> nonempty_success (snd x)"
    by (blast dest: walk_earlier)
  moreover from walk_success[OF w ne] have "nonempty_success (snd (last (calls st))) \<longrightarrow>
          snd (last (calls st)) = Inr (completion res)
          \<and> modelUsed res = Some (model (fst (last (calls st)))) \<and> lastError res = None"
    by blast
  moreover from walk_exhausted[OF w] ne have "\<not> nonempty_success (snd (last (calls st))) \<longrightarrow>
          length (calls st) = length (plan (configured_model env))
          \<and> completion res = JNull \<and> modelUsed res = None
          \<and> lastError res = Some (recorded_condition (snd (last (calls st))))"
    by simp
  ultimately show ?thesis by blast
qed



section \<open>The orchestrator over the plan\<close>


lemma configured_model_Some [simp]: "s \<noteq> [] \<Longrightarrow> configured_model (Some s) = s"
  by (simp add: configured_model_def)

lemma empty_text_completion_with [simp]: "empty_text (completion_with s n) = (trim s = [])"
  by (simp add: empty_text_def)

lemma nonempty_success_completion_with [simp]:
  "nonempty_success (Inr (completion_with s n)) = (trim s \<noteq> [])"
  by simp


lemma success_not_null:
  assumes "callOpenAIWithRetries openai env um w = (res, st)"
  shows "nonempty_success (snd (last (calls st))) \<longleftrightarrow> completion res \<noteq> JNull"
    and "nonempty_success (snd (last (calls st))) \<longleftrightarrow> truthy (completion res)"
proof -
  note g = run_general[OF assms]
  show "nonempty_success (snd (last (calls st))) \<longleftrightarrow> truthy (completion res)"
  proof
    assume n: "nonempty_success (snd (last (calls st)))"
    with g have "snd (last (calls st)) = Inr (completion res)" by blast
    with n show "truthy (completion res)" by (simp add: nonempty_success_truthy del: nonempty_success.simps)
  next
    assume "truthy (completion res)"
    with g show "nonempty_success (snd (last (calls st)))" by auto
  qed
  then show "nonempty_success (snd (last (calls st))) \<longleftrightarrow> completion res \<noteq> JNull"
    using g by auto
qed

lemma request_for_nano:
  "is_nano (attempt_model a) \<Longrightarrow> \<not> nullish (attempt_nanoLimit a) \<Longrightarrow>
   request_for um a =
     \<lparr> model = attempt_model a,
       messages =
         [\<lparr> role = ''system'',
            content = JStr ''You are a friendly Hinglish assistant. Keep responses short, clear, and conversational.'' \<rparr>,
          \<lparr> role = ''user'', content = um \<rparr>],
       max_completion_tokens = Some (attempt_nanoLimit a),
       max_tokens = None,
       temperature = None \<rparr>"
  by (simp add: request_for_def buildParams_def is_nano_def js_nullish_or_def)

lemma run_well_formed:
  assumes "callOpenAIWithRetries openai env um w = (res, st)"
  shows "well_formed res"
proof (cases "nonempty_success (snd (last (calls st)))")
  case True
  with run_general[OF assms] success_not_null(2)[OF assms] show ?thesis
    by (simp add: well_formed_def)
next
  case False
  with run_general[OF assms] show ?thesis
    by (simp add: well_formed_def)
qed

lemma run_soft_failure_advances:
  assumes r: "callOpenAIWithRetries openai env um w = (res, st)"
    and k: "k < length (calls st)" and s: "\<not> nonempty_success (snd (calls st ! k))"
  shows "if Suc k < length (plan (configured_model env)) then Suc k < length (calls st)
         else completion res = JNull
              \<and> lastError res = Some (recorded_condition (snd (calls st ! k)))"
proof -
  note g = run_general[OF r]
  from k have ne: "calls st \<noteq> []" by auto
  show ?thesis
  proof (cases "nonempty_success (snd (last (calls st)))")
    case True
    with s have "calls st ! k \<noteq> last (calls st)" by auto
    have "Suc k \<noteq> length (calls st)"
    proof
      assume "Suc k = length (calls st)"
      then have "k = length (calls st) - 1" by simp
      with ne have "last (calls st) = calls st ! k" by (simp add: last_conv_nth)
      with \<open>calls st ! k \<noteq> last (calls st)\<close> show False by simp
    qed
    with k have "Suc k < length (calls st)" by simp
    with g show ?thesis by auto
  next
    case False
    with g have e: "length (calls st) = length (plan (configured_model env))"
      "completion res = JNull"
      "lastError res = Some (recorded_condition (snd (last (calls st))))" by auto
    show ?thesis
    proof (cases "Suc k < length (plan (configured_model env))")
      case True
      with e show ?thesis by simp
    next
      case False
      with e k have "k = length (calls st) - 1" by simp
      with ne have "last (calls st) = calls st ! k" by (simp add: last_conv_nth)
      with False e show ?thesis by simp
    qed
  qed
qed

lemma thrown_error_step:
  assumes "i < length attempts" "\<not> skipped attempts (attempts ! i)"
    "openai (world st0) (request_for um (attempts ! i)) = (Inl err, w1)"
  shows "\<exists>st1. attempt_body openai um attempts i st0 = Continue st1
        \<and> cur_lastError st1 = Some err
        \<and> calls st1 = calls st0 @ [(request_for um (attempts ! i), Inl err)]
        \<and> world st1 = w1
        \<and> attempt_loop openai um attempts i st0 = attempt_loop openai um attempts (i + 1) st1"
proof -
  have "case attempt_body openai um attempts i st0 of
           Returned res st' \<Rightarrow>
             nonempty_success (Inl err) \<and> Inl err = Inr (completion res)
             \<and> modelUsed res = Some (attempt_model (attempts ! i)) \<and> lastError res = None
             \<and> calls st' = calls st0 @ [(request_for um (attempts ! i), Inl err)] \<and> world st' = w1
         | Continue st' \<Rightarrow>
             \<not> nonempty_success (Inl err) \<and> cur_lastError st' = Some (recorded_condition (Inl err))
             \<and> calls st' = calls st0 @ [(request_for um (attempts ! i), Inl err)] \<and> world st' = w1"
    using assms(2,3) by (rule attempt_body_call)
  then obtain st1 where b: "attempt_body openai um attempts i st0 = Continue st1"
    "cur_lastError st1 = Some err"
    "calls st1 = calls st0 @ [(request_for um (attempts ! i), Inl err)]" "world st1 = w1"
    by (cases "attempt_body openai um attempts i st0") auto
  from assms(1) b(1)
  have "attempt_loop openai um attempts i st0 = attempt_loop openai um attempts (i + 1) st1"
    by (subst attempt_loop.simps) simp
  with b show ?thesis by blast
qed

lemma run_eval:
  assumes "walk openai um (plan (configured_model env)) None w = (r, cs, w')"
  shows "case callOpenAIWithRetries openai env um w of
           (res, st) \<Rightarrow> res = r \<and> calls st = cs \<and> world st = w'"
proof (cases "callOpenAIWithRetries openai env um w")
  case (Pair res st)
  from run_walk[OF Pair] assms Pair show ?thesis by simp
qed

lemma plan_default:
  "plan (configured_model None) =
     [\<lparr> attempt_model = ''gpt-4o-mini'', attempt_type = Primary, attempt_nanoLimit = JNum 150 \<rparr>,
      \<lparr> attempt_model = ''gpt-4o-mini'', attempt_type = Fallback, attempt_nanoLimit = JNum 150 \<rparr>]"
  using plan_not_nano[OF not_is_nano_gpt_4o_mini] by (simp add: configured_model_def)




section \<open>The exhausted plan\<close>



section \<open>The parameter builder\<close>

text \<open>
  Claim C5. For every model identifier that contains \<^verbatim>\<open>gpt-5-nano\<close> whatever the case
  of its letters, every user message and every options bag, \<^verbatim>\<open>buildParams\<close> returns the
  model as given, the system instruction for short replies followed by the user message
  (the only message of role user), the field \<^verbatim>\<open>max_completion_tokens\<close> set to the
  option \<^verbatim>\<open>nanoLimit\<close> (150 when the bag has none, or has \<^verbatim>\<open>null\<close> or
  \<^verbatim>\<open>undefined\<close> there), and neither \<^verbatim>\<open>max_tokens\<close> nor \<^verbatim>\<open>temperature\<close>.
\<close>

theorem buildParams_nano_family:
  "is_nano mdl \<Longrightarrow>
   buildParams mdl um opts =
     \<lparr> model = mdl,
       messages =
         [\<lparr> role = ''system'',
            content = JStr ''You are a friendly Hinglish assistant. Keep responses short, clear, and conversational.'' \<rparr>,
          \<lparr> role = ''user'', content = um \<rparr>],
       max_completion_tokens =
         Some (case map_of opts ''nanoLimit'' of
                 None \<Rightarrow> JNum 150
               | Some v \<Rightarrow> if nullish v then JNum 150 else v),
       max_tokens = None,
       temperature = None \<rparr>
   \<and> length (filter (\<lambda>m. role m = ''user'') (messages (buildParams mdl um opts))) = 1"
  by (simp add: buildParams_def is_nano_def js_nullish_or_def split: option.splits)

theorem buildParams_nano_family_witness:
  "is_nano ''GPT-5-Nano''
   \<and> max_completion_tokens (buildParams ''GPT-5-Nano'' (JStr ''hi'') []) = Some (JNum 150)
   \<and> max_completion_tokens (buildParams ''GPT-5-Nano'' (JStr ''hi'') [(''nanoLimit'', JNum 80)])
       = Some (JNum 80)
   \<and> temperature (buildParams ''GPT-5-Nano'' (JStr ''hi'') [(''nanoLimit'', JNum 80)]) = None
   \<and> map role (messages (buildParams ''GPT-5-Nano'' (JStr ''hi'') [])) = [''system'', ''user'']"
proof -
  have n: "is_nano ''GPT-5-Nano''" by code_simp
  from buildParams_nano_family[OF n, of "JStr ''hi''" "[]"]
       buildParams_nano_family[OF n, of "JStr ''hi''" "[(''nanoLimit'', JNum 80)]"] n
  show ?thesis by simp
qed

text \<open>
  Claim C6, as amended. For every model identifier outside the nano family, every user
  message and every options bag, \<^verbatim>\<open>buildParams\<close> returns the system instruction for
  longer replies followed by the user message (the only message of role user), the field
  \<^verbatim>\<open>max_tokens\<close> set to 400, no \<^verbatim>\<open>max_completion_tokens\<close>, and the temperature 1.0: a
  literal of the code, which no argument changes. The request that the handler of
  \<^verbatim>\<open>index.js\<close> builds in place is the same with the literal 0.8 (and a test of the
  family that is sensitive to case).
\<close>

theorem buildParams_general_family:
  "(\<not> is_nano mdl \<longrightarrow>
      buildParams mdl um opts =
        \<lparr> model = mdl,
          messages =
            [\<lparr> role = ''system'',
               content = JStr ''You are a friendly Hinglish assistant. Answer clearly, simply, and conversationally under 400 words.'' \<rparr>,
             \<lparr> role = ''user'', content = um \<rparr>],
          max_completion_tokens = None,
          max_tokens = Some (JNum 400),
          temperature = Some (JNum 1) \<rparr>
      \<and> length (filter (\<lambda>m. role m = ''user'') (messages (buildParams mdl um opts))) = 1)
   \<and> (\<not> includes_str mdl ''gpt-5-nano'' \<longrightarrow>
      index_js_params mdl um =
        \<lparr> model = mdl,
          messages =
            [\<lparr> role = ''system'',
               content = JStr ''You are a friendly Hinglish assistant. Answer clearly, simply, and conversationally under 400 words.'' \<rparr>,
             \<lparr> role = ''user'', content = um \<rparr>],
          max_completion_tokens = None,
          max_tokens = Some (JNum 400),
          temperature = Some (JNum (8 / 10)) \<rparr>)"
  by (simp add: buildParams_def is_nano_def index_js_params_def)

theorem buildParams_general_family_witness:
  "\<not> is_nano ''gpt-4o-mini'' \<and> \<not> includes_str ''gpt-4o-mini'' ''gpt-5-nano''
   \<and> max_tokens (buildParams ''gpt-4o-mini'' (JStr ''hi'') [(''nanoLimit'', JNum 80)])
       = Some (JNum 400)
   \<and> temperature (buildParams ''gpt-4o-mini'' (JStr ''hi'') [(''nanoLimit'', JNum 80)])
       = Some (JNum 1)
   \<and> temperature (index_js_params ''gpt-4o-mini'' (JStr ''hi'')) = Some (JNum (8 / 10))"
proof -
  have a: "\<not> is_nano ''gpt-4o-mini''" by (rule not_is_nano_gpt_4o_mini)
  have b: "\<not> includes_str ''gpt-4o-mini'' ''gpt-5-nano''" by simp
  from a b buildParams_general_family[of "''gpt-4o-mini''" "JStr ''hi''" "[(''nanoLimit'', JNum 80)]"]
  show ?thesis by simp
qed

text \<open>
  The claim as stated fails: the temperature is not taken from anything configurable. An
  options bag that asks for the temperature 0.8, the value of the other revision and
  inside the range of the claim, still gets the literal 1.0.
\<close>

theorem temperature_not_configurable:
  "temperature (buildParams ''gpt-4o-mini'' (JStr ''hi'') [(''temperature'', JNum (8 / 10))])
     = Some (JNum 1)
   \<and> temperature (buildParams ''gpt-4o-mini'' (JStr ''hi'') [(''temperature'', JNum (8 / 10))])
     \<noteq> Some (JNum (8 / 10))"
proof -
  have "\<not> includes_str (toLowerCase ''gpt-4o-mini'') ''gpt-5-nano''"
    using not_is_nano_gpt_4o_mini by (simp add: is_nano_def)
  then have "temperature (buildParams ''gpt-4o-mini'' (JStr ''hi'')
                [(''temperature'', JNum (8 / 10))]) = Some (JNum 1)"
    by (simp add: buildParams_def Let_def)
  moreover have "(1 :: rat) \<noteq> 8 / 10" by simp
  ultimately show ?thesis by simp
qed

lemma walk_replays:
  "walk openai um as le w = (res, cs, w') \<Longrightarrow> replays openai w cs w'"
proof (induction as arbitrary: le w cs)
  case Nil
  then show ?case by simp
next
  case (Cons a as)
  from Cons.prems show ?case
  proof (cases rule: walk_Cons_cases)
    case (stop r)
    then show ?thesis by simp
  next
    case (go r w1 cs')
    with Cons.IH[OF go(3)] show ?thesis by simp
  qed
qed

lemma run_replays:
  "callOpenAIWithRetries openai env um w = (res, st) \<Longrightarrow> replays openai w (calls st) (world st)"
  by (rule walk_replays[OF run_walk])

lemma walk_all_soft:
  assumes "\<And>w p. \<exists>w2. openai w p = (r, w2)" "\<not> nonempty_success r"
  shows "as \<noteq> [] \<Longrightarrow> walk openai um as le w = (res, cs, w') \<Longrightarrow>
    cs = map (\<lambda>a. (request_for um a, r)) as
    \<and> res = \<lparr> completion = JNull, modelUsed = None, lastError = Some (recorded_condition r) \<rparr>"
proof (induction as arbitrary: le w cs)
  case Nil
  then show ?case by simp
next
  case (Cons a as)
  from Cons.prems(2) show ?case
  proof (cases rule: walk_Cons_cases)
    case (stop r')
    with assms(1)[of w "request_for um a"] assms(2) show ?thesis by auto
  next
    case (go r' w1 cs')
    with assms(1)[of w "request_for um a"] have r: "r' = r" by auto
    show ?thesis
    proof (cases "as = []")
      case True
      with go r show ?thesis by simp
    next
      case False
      from Cons.IH[OF False] go r show ?thesis by simp
    qed
  qed
qed

lemma plan_nonempty: "plan cm \<noteq> []"
  by (cases "is_nano cm") (simp_all add: plan_nano plan_not_nano)

lemma run_always_empty:
  assumes "empty_text c"
    and "callOpenAIWithRetries (always_client c) env um () = (res, st)"
  shows "calls st = map (\<lambda>a. (request_for um a, Inr c)) (plan (configured_model env))"
    and "res = \<lparr> completion = JNull, modelUsed = None,
                 lastError = Some (Error ''empty_response'') \<rparr>"
proof -
  have a: "\<And>w p. \<exists>w2. always_client c w p = (Inr c, w2)" by (simp add: always_client_def)
  have b: "\<not> nonempty_success (Inr c)" using assms(1) by (rule empty_text_soft)
  from walk_all_soft[OF a b plan_nonempty run_walk[OF assms(2)]]
    empty_text_condition[OF assms(1)]
  show "calls st = map (\<lambda>a. (request_for um a, Inr c)) (plan (configured_model env))"
    and "res = \<lparr> completion = JNull, modelUsed = None,
                 lastError = Some (Error ''empty_response'') \<rparr>"
    by simp_all
qed

lemma run_always_throwing:
  assumes "callOpenAIWithRetries (throwing_client err) env um () = (res, st)"
  shows "calls st = map (\<lambda>a. (request_for um a, Inl err)) (plan (configured_model env))"
    and "res = \<lparr> completion = JNull, modelUsed = None, lastError = Some err \<rparr>"
proof -
  have a: "\<And>w p. \<exists>w2. throwing_client err w p = (Inl err, w2)"
    by (simp add: throwing_client_def)
  have b: "\<not> nonempty_success (Inl err)" by simp
  from walk_all_soft[OF a b plan_nonempty run_walk[OF assms]]
  show "calls st = map (\<lambda>a. (request_for um a, Inl err)) (plan (configured_model env))"
    and "res = \<lparr> completion = JNull, modelUsed = None, lastError = Some err \<rparr>"
    by simp_all
qed


lemma loop_body_total:
  "loop_body openai um attempts i st = Inr (attempt_body openai um attempts i st)"
  by (simp add: loop_body_def attempt_body_def try_block_def catch_block_def Let_def
        split: prod.splits sum.splits)

lemma retry_loop_total:
  "retry_loop openai um attempts i st = Inr (attempt_loop openai um attempts i st)"
proof (induction openai um attempts i st rule: attempt_loop.induct)
  case (1 openai um attempts i st)
  show ?case
  proof (cases "i < length attempts")
    case False
    then show ?thesis by (simp add: retry_loop.simps attempt_loop.simps)
  next
    case True
    show ?thesis
    proof (cases "attempt_body openai um attempts i st")
      case (Returned res st')
      with True show ?thesis
        by (simp add: retry_loop.simps[of openai um attempts i st]
              attempt_loop.simps[of openai um attempts i st] loop_body_total)
    next
      case (Continue st')
      with True "1.IH"[OF True Continue] show ?thesis
        by (simp add: retry_loop.simps[of openai um attempts i st]
              attempt_loop.simps[of openai um attempts i st] loop_body_total)
    qed
  qed
qed

lemma callOpenAIWithRetries_throwing_total:
  "callOpenAIWithRetries_throwing openai env um w = Inr (callOpenAIWithRetries openai env um w)"
  by (simp add: callOpenAIWithRetries_throwing_def callOpenAIWithRetries_def Let_def
        retry_loop_total)

lemma try_block_throws:
  assumes "try_block openai i params st0 = Inl (err, st1)"
  shows "\<exists>r w1. openai (world st0) params = (r, w1) \<and> \<not> nonempty_success r
           \<and> recorded_condition r = err
           \<and> calls st1 = calls st0 @ [(params, r)] \<and> world st1 = w1"
  using assms
  by (auto simp: try_block_def Let_def split: prod.splits sum.splits if_splits)

section \<open>The plan by model family\<close>

text \<open>
  Claim C2. When the configured model is of the nano family (its name contains
  \<^verbatim>\<open>gpt-5-nano\<close>, whatever the case of its letters), the plan has 3 entries, and the
  second, the nano retry, asks the configured model again with the limit 80. Otherwise
  the plan has exactly 2 entries, primary then fallback, and the loop passes the
  nano-retry entry without touching the state: no call, no console output, no change of
  \<^verbatim>\<open>lastError\<close>. In every run the client is called at least once, the requests it
  receives are those of the plan's entries in order, each recorded reply is the client's
  own reply in the state the call before left, and a run in which no attempt succeeds
  attempts the whole plan. Against a client that always answers with the same empty
  text, the calls are exactly the plan's entries, each answered by the client: 3 for
  the nano family, 2 otherwise.
\<close>

theorem narrow_retry_by_family:
  "(is_nano (configured_model env) \<longrightarrow>
      plan (configured_model env) =
        [\<lparr> attempt_model = configured_model env, attempt_type = Primary,
           attempt_nanoLimit = JNum 150 \<rparr>,
         \<lparr> attempt_model = configured_model env, attempt_type = NanoRetry,
           attempt_nanoLimit = JNum 80 \<rparr>,
         \<lparr> attempt_model = ''gpt-4o-mini'', attempt_type = Fallback,
           attempt_nanoLimit = JNum 150 \<rparr>]
      \<and> model (request_for um (plan (configured_model env) ! 1)) = configured_model env
      \<and> max_completion_tokens (request_for um (plan (configured_model env) ! 1))
          = Some (JNum 80))
   \<and> (\<not> is_nano (configured_model env) \<longrightarrow>
      plan (configured_model env) =
        [\<lparr> attempt_model = configured_model env, attempt_type = Primary,
           attempt_nanoLimit = JNum 150 \<rparr>,
         \<lparr> attempt_model = ''gpt-4o-mini'', attempt_type = Fallback,
           attempt_nanoLimit = JNum 150 \<rparr>]
      \<and> attempt_body openai um (attempts_of (configured_model env)) 1 st0 = Continue st0)
   \<and> (case callOpenAIWithRetries openai env um w of
        (res, st) \<Rightarrow>
          calls st \<noteq> []
          \<and> map fst (calls st)
            = map (request_for um) (take (length (calls st)) (plan (configured_model env)))
          \<and> replays openai w (calls st) (world st)
          \<and> (completion res = JNull \<longrightarrow>
                length (calls st) = length (plan (configured_model env))))
   \<and> (empty_text c \<longrightarrow>
       (case callOpenAIWithRetries (always_client c) env um () of
          (res, st) \<Rightarrow>
            calls st = map (\<lambda>a. (request_for um a, Inr c)) (plan (configured_model env))
            \<and> completion res = JNull))"
proof (intro conjI impI)
  assume n: "is_nano (configured_model env)"
  show p: "plan (configured_model env) =
        [\<lparr> attempt_model = configured_model env, attempt_type = Primary,
           attempt_nanoLimit = JNum 150 \<rparr>,
         \<lparr> attempt_model = configured_model env, attempt_type = NanoRetry,
           attempt_nanoLimit = JNum 80 \<rparr>,
         \<lparr> attempt_model = ''gpt-4o-mini'', attempt_type = Fallback,
           attempt_nanoLimit = JNum 150 \<rparr>]"
    using n by (rule plan_nano)
  show "model (request_for um (plan (configured_model env) ! 1)) = configured_model env"
    by (simp add: p model_request_for)
  show "max_completion_tokens (request_for um (plan (configured_model env) ! 1))
          = Some (JNum 80)"
    using n by (simp add: p request_for_nano)
next
  assume n: "\<not> is_nano (configured_model env)"
  show "plan (configured_model env) =
        [\<lparr> attempt_model = configured_model env, attempt_type = Primary,
           attempt_nanoLimit = JNum 150 \<rparr>,
         \<lparr> attempt_model = ''gpt-4o-mini'', attempt_type = Fallback,
           attempt_nanoLimit = JNum 150 \<rparr>]"
    using n by (rule plan_not_nano)
  have "skipped (attempts_of (configured_model env)) (attempts_of (configured_model env) ! 1)"
    using n by (simp add: skipped_def attempts_of_def is_nano_def)
  then show "attempt_body openai um (attempts_of (configured_model env)) 1 st0 = Continue st0"
    by (rule attempt_body_skip)
next
  show "case callOpenAIWithRetries openai env um w of
        (res, st) \<Rightarrow>
          calls st \<noteq> []
          \<and> map fst (calls st)
            = map (request_for um) (take (length (calls st)) (plan (configured_model env)))
          \<and> replays openai w (calls st) (world st)
          \<and> (completion res = JNull \<longrightarrow>
                length (calls st) = length (plan (configured_model env)))"
  proof (cases "callOpenAIWithRetries openai env um w")
    case (Pair res st)
    from run_general[OF Pair] have "calls st \<noteq> []" by auto
    with run_general[OF Pair] success_not_null(1)[OF Pair] run_replays[OF Pair] Pair
    show ?thesis by auto
  qed
next
  assume e: "empty_text c"
  show "case callOpenAIWithRetries (always_client c) env um () of
          (res, st) \<Rightarrow>
            calls st = map (\<lambda>a. (request_for um a, Inr c)) (plan (configured_model env))
            \<and> completion res = JNull"
  proof (cases "callOpenAIWithRetries (always_client c) env um ()")
    case (Pair res st)
    from run_always_empty[OF e Pair] Pair show ?thesis by simp
  qed
qed

theorem narrow_retry_by_family_witness:
  "is_nano (configured_model (Some ''GPT-5-Nano''))
   \<and> \<not> is_nano (configured_model None)
   \<and> empty_text (completion_with [] 0)
   \<and> length (plan (configured_model (Some ''GPT-5-Nano''))) = 3
   \<and> max_completion_tokens
        (request_for (JStr ''hi'') (plan (configured_model (Some ''GPT-5-Nano'')) ! 1))
       = Some (JNum 80)
   \<and> map attempt_type (plan (configured_model None)) = [Primary, Fallback]
   \<and> (case callOpenAIWithRetries (always_client (completion_with [] 0)) (Some ''GPT-5-Nano'')
             (JStr ''hi'') () of
        (res, st) \<Rightarrow>
          completion res = JNull
          \<and> map snd (calls st)
              = [Inr (completion_with [] 0), Inr (completion_with [] 0),
                 Inr (completion_with [] 0)]
          \<and> map (model \<circ> fst) (calls st) = [''GPT-5-Nano'', ''GPT-5-Nano'', ''gpt-4o-mini''])
   \<and> (case callOpenAIWithRetries (always_client (completion_with [] 0)) None (JStr ''hi'') () of
        (res, st) \<Rightarrow>
          completion res = JNull
          \<and> map snd (calls st) = [Inr (completion_with [] 0), Inr (completion_with [] 0)]
          \<and> map (model \<circ> fst) (calls st) = [''gpt-4o-mini'', ''gpt-4o-mini''])"
proof -
  let ?c = "completion_with [] 0"
  have a: "is_nano (configured_model (Some ''GPT-5-Nano''))"
    unfolding configured_model_def by code_simp
  have b: "\<not> is_nano (configured_model None)"
    by (simp add: configured_model_def not_is_nano_gpt_4o_mini)
  have e: "empty_text ?c" by (simp add: trim_examples)
  note t1 = narrow_retry_by_family[where env = "Some ''GPT-5-Nano''" and um = "JStr ''hi''"
      and openai = "always_client ?c" and w = "()" and c = ?c]
  note t2 = narrow_retry_by_family[where env = None and um = "JStr ''hi''"
      and openai = "always_client ?c" and w = "()" and c = ?c]
  from mp[OF t1[THEN conjunct1] a] have p1: "plan (configured_model (Some ''GPT-5-Nano'')) =
        [\<lparr> attempt_model = configured_model (Some ''GPT-5-Nano''), attempt_type = Primary,
           attempt_nanoLimit = JNum 150 \<rparr>,
         \<lparr> attempt_model = configured_model (Some ''GPT-5-Nano''), attempt_type = NanoRetry,
           attempt_nanoLimit = JNum 80 \<rparr>,
         \<lparr> attempt_model = ''gpt-4o-mini'', attempt_type = Fallback,
           attempt_nanoLimit = JNum 150 \<rparr>]"
    by blast
  from mp[OF t1[THEN conjunct1] a] have l80: "max_completion_tokens
        (request_for (JStr ''hi'') (plan (configured_model (Some ''GPT-5-Nano'')) ! 1))
       = Some (JNum 80)"
    by blast
  from mp[OF t2[THEN conjunct2, THEN conjunct1] b] have p2: "plan (configured_model None) =
        [\<lparr> attempt_model = configured_model None, attempt_type = Primary,
           attempt_nanoLimit = JNum 150 \<rparr>,
         \<lparr> attempt_model = ''gpt-4o-mini'', attempt_type = Fallback,
           attempt_nanoLimit = JNum 150 \<rparr>]"
    by blast
  from mp[OF t1[THEN conjunct2, THEN conjunct2, THEN conjunct2] e]
  have r1: "case callOpenAIWithRetries (always_client ?c) (Some ''GPT-5-Nano'')
             (JStr ''hi'') () of
        (res, st) \<Rightarrow>
          calls st = map (\<lambda>a. (request_for (JStr ''hi'') a, Inr ?c))
                         (plan (configured_model (Some ''GPT-5-Nano'')))
          \<and> completion res = JNull" .
  from mp[OF t2[THEN conjunct2, THEN conjunct2, THEN conjunct2] e]
  have r2: "case callOpenAIWithRetries (always_client ?c) None (JStr ''hi'') () of
        (res, st) \<Rightarrow>
          calls st = map (\<lambda>a. (request_for (JStr ''hi'') a, Inr ?c)) (plan (configured_model None))
          \<and> completion res = JNull" .
  have c1: "case callOpenAIWithRetries (always_client ?c) (Some ''GPT-5-Nano'')
             (JStr ''hi'') () of
        (res, st) \<Rightarrow>
          completion res = JNull
          \<and> map snd (calls st) = [Inr ?c, Inr ?c, Inr ?c]
          \<and> map (model \<circ> fst) (calls st) = [''GPT-5-Nano'', ''GPT-5-Nano'', ''gpt-4o-mini'']"
    using r1 by (simp add: p1[simplified] model_request_for split: prod.splits)
  have c2: "case callOpenAIWithRetries (always_client ?c) None (JStr ''hi'') () of
        (res, st) \<Rightarrow>
          completion res = JNull
          \<and> map snd (calls st) = [Inr ?c, Inr ?c]
          \<and> map (model \<circ> fst) (calls st) = [''gpt-4o-mini'', ''gpt-4o-mini'']"
    using r2 by (simp add: plan_default model_request_for split: prod.splits)
  have l3: "length (plan (configured_model (Some ''GPT-5-Nano''))) = 3"
    by (simp add: p1[simplified])
  have m2: "map attempt_type (plan (configured_model None)) = [Primary, Fallback]"
    using p2 by simp
  from a b e l3 l80 m2 c1 c2 show ?thesis by blast
qed

section \<open>Failures of an attempt\<close>

text \<open>
  Claim C3. Thrown values are error objects, the client's state stands for everything
  outside the server, the clock included.

  No error leaves the function: told with its exceptions as values, it returns, and
  returns what the function of the other sections returns. The result is well formed:
  a success with its completion and model, or the exhausted result with the last
  condition recorded. The recorded calls are a chain of the client's own replies: each
  call starts in the state the call before left, so nothing, and no waiting, comes
  between a failed attempt and the next. A failure of an attempt never ends the walk
  early: after every call that was not a non-empty success, and so after every
  exception, the next entry of the plan is attempted if there is one, and otherwise the
  run ends exhausted with that condition as \<^verbatim>\<open>lastError\<close>. Against a client that
  rejects every request with an error, whatever its message, every entry of the plan is
  attempted, each rejection is the recorded reply, and the result is the exhausted one
  with that error. Whenever the \<^verbatim>\<open>try\<close> block throws, the \<^verbatim>\<open>catch\<close> block records
  the error and continues, without a call and without touching the outside; at the step
  where the client rejects, the loop goes on from the next index.
\<close>

theorem failures_absorbed:
  "callOpenAIWithRetries_throwing openai env um w
     = Inr (callOpenAIWithRetries openai env um w)
   \<and> (case callOpenAIWithRetries openai env um w of
      (res, st) \<Rightarrow>
        well_formed res
        \<and> replays openai w (calls st) (world st)
        \<and> (\<forall>k < length (calls st). \<not> nonempty_success (snd (calls st ! k)) \<longrightarrow>
             (if Suc k < length (plan (configured_model env)) then Suc k < length (calls st)
              else completion res = JNull
                   \<and> lastError res = Some (recorded_condition (snd (calls st ! k))))))
   \<and> (case callOpenAIWithRetries (throwing_client err) env um () of
      (res, st) \<Rightarrow>
        calls st = map (\<lambda>a. (request_for um a, Inl err)) (plan (configured_model env))
        \<and> res = \<lparr> completion = JNull, modelUsed = None, lastError = Some err \<rparr>)
   \<and> (\<not> skipped attempts (attempts ! i)
        \<and> try_block openai i (request_for um (attempts ! i)) st0 = Inl (err, st1) \<longrightarrow>
        loop_body openai um attempts i st0
          = Inr (Continue (on_error (attempts ! i) i err st1))
        \<and> attempt_body openai um attempts i st0 = Continue (on_error (attempts ! i) i err st1)
        \<and> cur_lastError (on_error (attempts ! i) i err st1) = Some err
        \<and> world (on_error (attempts ! i) i err st1) = world st1
        \<and> (\<exists>r. openai (world st0) (request_for um (attempts ! i)) = (r, world st1)
               \<and> \<not> nonempty_success r \<and> recorded_condition r = err
               \<and> calls st1 = calls st0 @ [(request_for um (attempts ! i), r)]))
   \<and> (i < length attempts \<and> \<not> skipped attempts (attempts ! i)
        \<and> openai (world st0) (request_for um (attempts ! i)) = (Inl err, w1) \<longrightarrow>
       (\<exists>st2. attempt_body openai um attempts i st0 = Continue st2
          \<and> cur_lastError st2 = Some err
          \<and> calls st2 = calls st0 @ [(request_for um (attempts ! i), Inl err)]
          \<and> world st2 = w1
          \<and> attempt_loop openai um attempts i st0
              = attempt_loop openai um attempts (i + 1) st2))"
proof (intro conjI impI)
  show "callOpenAIWithRetries_throwing openai env um w
     = Inr (callOpenAIWithRetries openai env um w)"
    by (rule callOpenAIWithRetries_throwing_total)
next
  show "case callOpenAIWithRetries openai env um w of
      (res, st) \<Rightarrow>
        well_formed res
        \<and> replays openai w (calls st) (world st)
        \<and> (\<forall>k < length (calls st). \<not> nonempty_success (snd (calls st ! k)) \<longrightarrow>
             (if Suc k < length (plan (configured_model env)) then Suc k < length (calls st)
              else completion res = JNull
                   \<and> lastError res = Some (recorded_condition (snd (calls st ! k)))))"
  proof (cases "callOpenAIWithRetries openai env um w")
    case (Pair res st)
    from run_well_formed[OF Pair] run_replays[OF Pair] run_soft_failure_advances[OF Pair] Pair
    show ?thesis by simp
  qed
next
  show "case callOpenAIWithRetries (throwing_client err) env um () of
      (res, st) \<Rightarrow>
        calls st = map (\<lambda>a. (request_for um a, Inl err)) (plan (configured_model env))
        \<and> res = \<lparr> completion = JNull, modelUsed = None, lastError = Some err \<rparr>"
  proof (cases "callOpenAIWithRetries (throwing_client err) env um ()")
    case (Pair res st)
    from run_always_throwing[OF Pair] Pair show ?thesis by simp
  qed
next
  assume "\<not> skipped attempts (attempts ! i)
        \<and> try_block openai i (request_for um (attempts ! i)) st0 = Inl (err, st1)"
  then have ns: "\<not> skipped attempts (attempts ! i)"
    and t: "try_block openai i (request_for um (attempts ! i)) st0 = Inl (err, st1)"
    by simp_all
  from ns t show lb: "loop_body openai um attempts i st0
          = Inr (Continue (on_error (attempts ! i) i err st1))"
    by (simp add: loop_body_def catch_block_def request_for_def Let_def)
  from lb show "attempt_body openai um attempts i st0
          = Continue (on_error (attempts ! i) i err st1)"
    by (simp add: loop_body_total)
  show "cur_lastError (on_error (attempts ! i) i err st1) = Some err"
    "world (on_error (attempts ! i) i err st1) = world st1"
    by simp_all
  from try_block_throws[OF t]
  show "\<exists>r. openai (world st0) (request_for um (attempts ! i)) = (r, world st1)
               \<and> \<not> nonempty_success r \<and> recorded_condition r = err
               \<and> calls st1 = calls st0 @ [(request_for um (attempts ! i), r)]"
    by auto
next
  assume "i < length attempts \<and> \<not> skipped attempts (attempts ! i)
        \<and> openai (world st0) (request_for um (attempts ! i)) = (Inl err, w1)"
  then have "i < length attempts" "\<not> skipped attempts (attempts ! i)"
    "openai (world st0) (request_for um (attempts ! i)) = (Inl err, w1)" by simp_all
  then show "\<exists>st2. attempt_body openai um attempts i st0 = Continue st2
          \<and> cur_lastError st2 = Some err
          \<and> calls st2 = calls st0 @ [(request_for um (attempts ! i), Inl err)]
          \<and> world st2 = w1
          \<and> attempt_loop openai um attempts i st0
              = attempt_loop openai um attempts (i + 1) st2"
    by (rule thrown_error_step)
qed


theorem failures_absorbed_witness:
  "callOpenAIWithRetries_throwing clocked_client None (JStr ''hi'')
       (0, [Inl (Error ''Rate limit reached''), Inr (completion_with ''Namaste'' 9)])
     = Inr (callOpenAIWithRetries clocked_client None (JStr ''hi'')
              (0, [Inl (Error ''Rate limit reached''), Inr (completion_with ''Namaste'' 9)]))
   \<and> (case callOpenAIWithRetries clocked_client None (JStr ''hi'')
            (0, [Inl (Error ''Rate limit reached''), Inr (completion_with ''Namaste'' 9)]) of
      (res, st) \<Rightarrow>
        0 < length (calls st) \<and> \<not> nonempty_success (snd (calls st ! 0))
        \<and> Suc 0 < length (plan (configured_model None))
        \<and> Suc 0 < length (calls st)
        \<and> well_formed res \<and> length (calls st) = 2 \<and> modelUsed res = Some ''gpt-4o-mini''
        \<and> world st = (2, [])
        \<and> replays clocked_client
             (0, [Inl (Error ''Rate limit reached''), Inr (completion_with ''Namaste'' 9)])
             (calls st) (2, []))
   \<and> (case callOpenAIWithRetries (throwing_client (Error ''Unsupported parameter: max_tokens''))
            (Some ''gpt-5-nano'') (JStr ''hi'') () of
      (res, st) \<Rightarrow>
        map snd (calls st)
          = [Inl (Error ''Unsupported parameter: max_tokens''),
             Inl (Error ''Unsupported parameter: max_tokens''),
             Inl (Error ''Unsupported parameter: max_tokens'')]
        \<and> res = \<lparr> completion = JNull, modelUsed = None,
                   lastError = Some (Error ''Unsupported parameter: max_tokens'') \<rparr>)
   \<and> 0 < length (attempts_of ''gpt-4o-mini'')
   \<and> \<not> skipped (attempts_of ''gpt-4o-mini'') (attempts_of ''gpt-4o-mini'' ! 0)
   \<and> stub_client [Inl (Error ''Rate limit reached'')]
        (request_for (JStr ''hi'') (attempts_of ''gpt-4o-mini'' ! 0))
       = (Inl (Error ''Rate limit reached''), [])
   \<and> try_block stub_client 0 (request_for (JStr ''hi'') (attempts_of ''gpt-4o-mini'' ! 0))
        \<lparr> cur_lastError = None, cur_completion = JNull, calls = [], console = [],
          world = [Inl (Error ''Rate limit reached'')] \<rparr>
       = Inl (Error ''Rate limit reached'',
              \<lparr> cur_lastError = None, cur_completion = JNull,
                calls = [(request_for (JStr ''hi'') (attempts_of ''gpt-4o-mini'' ! 0),
                          Inl (Error ''Rate limit reached''))],
                console = [Log_attempt 1
                             (request_for (JStr ''hi'') (attempts_of ''gpt-4o-mini'' ! 0))],
                world = [] \<rparr>)
   \<and> (\<exists>st2. attempt_body stub_client (JStr ''hi'') (attempts_of ''gpt-4o-mini'') 0
               \<lparr> cur_lastError = None, cur_completion = JNull, calls = [], console = [],
                 world = [Inl (Error ''Rate limit reached'')] \<rparr> = Continue st2
          \<and> cur_lastError st2 = Some (Error ''Rate limit reached'') \<and> world st2 = [])"
proof -
  let ?e = "Error ''Rate limit reached''"
  let ?e2 = "Error ''Unsupported parameter: max_tokens''"
  let ?c = "completion_with ''Namaste'' 9"
  let ?um = "JStr ''hi''"
  let ?w = "(0 :: nat, [Inl ?e, Inr ?c])"
  let ?as = "attempts_of ''gpt-4o-mini''"
  let ?p = "request_for ?um (?as ! 0)"
  let ?st0 = "\<lparr> cur_lastError = None, cur_completion = JNull, calls = [], console = [],
                 world = [Inl ?e] \<rparr>"
  let ?st1 = "\<lparr> cur_lastError = None, cur_completion = JNull, calls = [(?p, Inl ?e)],
                 console = [Log_attempt 1 ?p], world = [] \<rparr>"
  note t = failures_absorbed[where openai = clocked_client and env = None and um = ?um
      and w = ?w and err = ?e2]
  note t2 = failures_absorbed[where env = "Some ''gpt-5-nano''" and um = ?um and err = ?e2]
  note t3 = failures_absorbed[where openai = stub_client and um = ?um and attempts = ?as
      and i = 0 and ?st0.0 = ?st0 and err = ?e and ?st1.0 = ?st1 and ?w1.0 = "[]"]
  have ev: "case callOpenAIWithRetries clocked_client None ?um ?w of
      (res, st) \<Rightarrow> res = \<lparr> completion = ?c, modelUsed = Some ''gpt-4o-mini'', lastError = None \<rparr>
        \<and> calls st = [(request_for ?um (plan (configured_model None) ! 0), Inl ?e),
                      (request_for ?um (plan (configured_model None) ! 1), Inr ?c)]
        \<and> world st = (2, [])"
    by (rule run_eval)
       (simp add: plan_default clocked_client_def Let_def trim_def is_space_def)
  have h1: "0 < length ?as" and h2: "\<not> skipped ?as (?as ! 0)"
    and h3: "stub_client (world ?st0) ?p = (Inl ?e, [])"
    by (simp_all add: attempts_of_def skipped_def stub_client_def)
  have h4: "try_block stub_client 0 ?p ?st0 = Inl (?e, ?st1)"
    by (simp add: try_block_def stub_client_def say_def Let_def)
  have a: "callOpenAIWithRetries_throwing clocked_client None ?um ?w
     = Inr (callOpenAIWithRetries clocked_client None ?um ?w)"
    by (rule t[THEN conjunct1])
  from t[THEN conjunct2, THEN conjunct1] ev
  have b: "case callOpenAIWithRetries clocked_client None ?um ?w of
      (res, st) \<Rightarrow>
        0 < length (calls st) \<and> \<not> nonempty_success (snd (calls st ! 0))
        \<and> Suc 0 < length (plan (configured_model None))
        \<and> Suc 0 < length (calls st)
        \<and> well_formed res \<and> length (calls st) = 2 \<and> modelUsed res = Some ''gpt-4o-mini''
        \<and> world st = (2, [])
        \<and> replays clocked_client ?w (calls st) (2, [])"
    by (auto simp: plan_default split: prod.splits)
  from t2[THEN conjunct2, THEN conjunct2, THEN conjunct1]
  have c: "case callOpenAIWithRetries (throwing_client ?e2) (Some ''gpt-5-nano'') ?um () of
      (res, st) \<Rightarrow>
        map snd (calls st) = [Inl ?e2, Inl ?e2, Inl ?e2]
        \<and> res = \<lparr> completion = JNull, modelUsed = None, lastError = Some ?e2 \<rparr>"
    by (simp add: plan_nano[OF is_nano_gpt_5_nano] split: prod.splits)
  from mp[OF t3[THEN conjunct2, THEN conjunct2, THEN conjunct2, THEN conjunct2]] h1 h2 h3
  have d: "\<exists>st2. attempt_body stub_client ?um ?as 0 ?st0 = Continue st2
          \<and> cur_lastError st2 = Some ?e \<and> world st2 = []"
    by auto
  from mp[OF t3[THEN conjunct2, THEN conjunct2, THEN conjunct2, THEN conjunct1]] h2 h4
  have "attempt_body stub_client ?um ?as 0 ?st0 = Continue (on_error (?as ! 0) 0 ?e ?st1)"
    by blast
  from a b c d h1 h2 h3 h4 show ?thesis by simp
qed

lemma truthy_not_nullish: "truthy (get_prop body k) \<Longrightarrow> \<not> nullish body"
  by (cases body) simp_all

lemma api_chat_invalid:
  "\<not> truthy (get_prop body ''userId'') \<or> \<not> truthy (get_prop body ''message'') \<Longrightarrow>
   client_calls (api_chat deps cfg body w) = []"
  by (auto simp: api_chat_def server_error_def Let_def)

lemma api_chat_quota:
  assumes "truthy (get_prop body ''userId'')" "truthy (get_prop body ''message'')"
    and "getTokens deps w (get_prop body ''userId'') = (Inr used, w1)"
    and "js_ge used (FREE_TOKEN_LIMIT cfg)"
  shows "api_chat deps cfg body w =
     \<lparr> response = Json 402 (JObj [(''error'', JStr ''quota_exhausted'')]),
       client_calls = [],
       printed = [Log_incoming (get_prop body ''userId'') (get_prop body ''message''),
                  Log_exceeded (get_prop body ''userId'') used (FREE_TOKEN_LIMIT cfg)],
       final_world = w1 \<rparr>"
  using assms truthy_not_nullish[OF assms(1)]
  by (simp add: api_chat_def Let_def)

section \<open>The quota gate\<close>

text \<open>
  Claim C7. Take a request that carries a user id and a message, from an identity whose
  usage, as the ledger reports it, is at or above the ceiling (equality included). The
  handler answers with status 402 and the body \<^verbatim>\<open>{error: "quota_exhausted"}\<close>, and the
  completion client is not called: the record of calls is empty, the collaborators are
  left as the ledger's read left them, and the outcome is the same whatever the client
  is. (A request without user id or message is answered 400 before the ledger is read;
  the client is not called then either.)
\<close>

theorem quota_gate_blocks:
  "getTokens deps w (get_prop body ''userId'') = (Inr used, w1)
   \<and> FREE_TOKEN_LIMIT cfg = Some limit \<and> limit \<le> used \<longrightarrow>
     client_calls (api_chat deps cfg body w) = []
     \<and> (truthy (get_prop body ''userId'') \<and> truthy (get_prop body ''message'') \<longrightarrow>
          response (api_chat deps cfg body w)
            = Json 402 (JObj [(''error'', JStr ''quota_exhausted'')])
          \<and> final_world (api_chat deps cfg body w) = w1
          \<and> api_chat (deps\<lparr> openai_create := other \<rparr>) cfg body w = api_chat deps cfg body w)"
proof (intro impI)
  assume a: "getTokens deps w (get_prop body ''userId'') = (Inr used, w1)
   \<and> FREE_TOKEN_LIMIT cfg = Some limit \<and> limit \<le> used"
  then have g: "getTokens deps w (get_prop body ''userId'') = (Inr used, w1)"
    and j: "js_ge used (FREE_TOKEN_LIMIT cfg)"
    by (simp_all add: js_ge_def)
  show "client_calls (api_chat deps cfg body w) = []
     \<and> (truthy (get_prop body ''userId'') \<and> truthy (get_prop body ''message'') \<longrightarrow>
          response (api_chat deps cfg body w)
            = Json 402 (JObj [(''error'', JStr ''quota_exhausted'')])
          \<and> final_world (api_chat deps cfg body w) = w1
          \<and> api_chat (deps\<lparr> openai_create := other \<rparr>) cfg body w = api_chat deps cfg body w)"
  proof (cases "truthy (get_prop body ''userId'') \<and> truthy (get_prop body ''message'')")
    case False
    then show ?thesis using api_chat_invalid[of body deps cfg w] by auto
  next
    case True
    then have u: "truthy (get_prop body ''userId'')" and m: "truthy (get_prop body ''message'')"
      by simp_all
    have g': "getTokens (deps\<lparr> openai_create := other \<rparr>) w (get_prop body ''userId'')
                = (Inr used, w1)"
      using g by simp
    from api_chat_quota[OF u m g j] api_chat_quota[OF u m g' j] True
    show ?thesis by simp
  qed
qed

theorem quota_gate_blocks_witness:
  "getTokens (fixed_collaborators 100000 False False) [Inr (completion_with ''Namaste'' 9)]
       (get_prop (JObj [(''userId'', JStr ''u1''), (''sessionId'', JStr ''s1''),
                        (''message'', JStr ''hi'')]) ''userId'')
     = (Inr 100000, [Inr (completion_with ''Namaste'' 9)])
   \<and> FREE_TOKEN_LIMIT \<lparr> OPENAI_MODEL = None, FREE_TOKEN_LIMIT = Some 100000 \<rparr> = Some 100000
   \<and> (100000 :: int) \<le> 100000
   \<and> truthy (get_prop (JObj [(''userId'', JStr ''u1''), (''sessionId'', JStr ''s1''),
                              (''message'', JStr ''hi'')]) ''userId'')
   \<and> truthy (get_prop (JObj [(''userId'', JStr ''u1''), (''sessionId'', JStr ''s1''),
                              (''message'', JStr ''hi'')]) ''message'')
   \<and> client_calls
        (api_chat (fixed_collaborators 100000 False False)
           \<lparr> OPENAI_MODEL = None, FREE_TOKEN_LIMIT = Some 100000 \<rparr>
           (JObj [(''userId'', JStr ''u1''), (''sessionId'', JStr ''s1''),
                  (''message'', JStr ''hi'')])
           [Inr (completion_with ''Namaste'' 9)]) = []
   \<and> response
        (api_chat (fixed_collaborators 100000 False False)
           \<lparr> OPENAI_MODEL = None, FREE_TOKEN_LIMIT = Some 100000 \<rparr>
           (JObj [(''userId'', JStr ''u1''), (''sessionId'', JStr ''s1''),
                  (''message'', JStr ''hi'')])
           [Inr (completion_with ''Namaste'' 9)])
       = Json 402 (JObj [(''error'', JStr ''quota_exhausted'')])"
proof -
  let ?deps = "fixed_collaborators 100000 False False"
  let ?cfg = "\<lparr> OPENAI_MODEL = None, FREE_TOKEN_LIMIT = Some 100000 \<rparr>"
  let ?body = "JObj [(''userId'', JStr ''u1''), (''sessionId'', JStr ''s1''),
                     (''message'', JStr ''hi'')]"
  let ?w = "[Inr (completion_with ''Namaste'' 9)] :: (js_error + jsval) list"
  have h: "getTokens ?deps ?w (get_prop ?body ''userId'') = (Inr 100000, ?w)
     \<and> FREE_TOKEN_LIMIT ?cfg = Some 100000 \<and> (100000 :: int) \<le> 100000"
    by (simp add: fixed_collaborators_def)
  have v: "truthy (get_prop ?body ''userId'')" "truthy (get_prop ?body ''message'')"
    by simp_all
  from quota_gate_blocks[where deps = ?deps and w = ?w and body = ?body and used = 100000
      and ?w1.0 = ?w and cfg = ?cfg and limit = 100000 and other = stub_client] h v
  have "client_calls (api_chat ?deps ?cfg ?body ?w) = []
    \<and> response (api_chat ?deps ?cfg ?body ?w)
        = Json 402 (JObj [(''error'', JStr ''quota_exhausted'')])"
    by blast
  with h v show ?thesis by blast
qed



lemma run_success_text:
  assumes r: "callOpenAIWithRetries openai env um w = (res, st)"
    and s: "completion res \<noteq> JNull"
  shows "\<exists>t. t \<noteq> [] \<and> candidate_of (completion res) = Inr (JStr t)
            \<and> aiMessage_of (completion res) = Inr (JStr t)"
    and "truthy (completion res)" and "modelUsed res \<noteq> None"
    and "calls st \<noteq> []" and "snd (last (calls st)) = Inr (completion res)"
    and "modelUsed res = Some (model (fst (last (calls st))))"
proof -
  note g = run_general[OF r]
  from s success_not_null(1)[OF r] have n: "nonempty_success (snd (last (calls st)))" by simp
  with g show l: "snd (last (calls st)) = Inr (completion res)"
    and "modelUsed res = Some (model (fst (last (calls st))))" by simp_all
  with g n show "modelUsed res \<noteq> None" by simp
  from g show "calls st \<noteq> []" by auto
  from n l have ns: "nonempty_success (Inr (completion res))" by simp
  then show "truthy (completion res)" by (rule nonempty_success_truthy)
  from nonempty_success_text[OF ns] obtain t where
    t: "t \<noteq> []" "candidate_of (completion res) = Inr (JStr t)" by blast
  then have "aiMessage_of (completion res) = Inr (JStr t)"
    by (simp add: aiMessage_of_def js_or_def)
  with t show "\<exists>t. t \<noteq> [] \<and> candidate_of (completion res) = Inr (JStr t)
            \<and> aiMessage_of (completion res) = Inr (JStr t)" by blast
qed

lemma api_chat_success:
  assumes v: "truthy (get_prop body ''userId'')" "truthy (get_prop body ''message'')"
    and g: "getTokens deps w (get_prop body ''userId'') = (Inr used, w1)"
    and q: "\<not> js_ge used (FREE_TOKEN_LIMIT cfg)"
    and r: "callOpenAIWithRetries (openai_create deps) (OPENAI_MODEL cfg)
              (get_prop body ''message'') w1 = (res, st)"
    and s: "truthy (completion res)"
    and c: "aiMessage_of (completion res) = Inr aiMessage"
    and i: "insert_messages deps (world st)
              (message_rows (get_prop body ''sessionId'') (get_prop body ''message'') aiMessage
                 (tokenCount_of (completion res))) = (saved, w3)"
    and a: "addTokens deps w3 (get_prop body ''userId'') (tokenCount_of (completion res))
              = (added, w4)"
    and tt: "getTokens deps w4 (get_prop body ''userId'') = (tot, w5)"
  shows "api_chat deps cfg body w =
     \<lparr> response =
         Json 200 (JObj [(''message'', aiMessage),
                         (''tokensUsed'', tokenCount_of (completion res)),
                         (''totalTokens'',
                          case tot of Inl err \<Rightarrow> JNull | Inr n \<Rightarrow> JNum (of_int n))]),
       client_calls = calls st,
       printed =
         [Log_incoming (get_prop body ''userId'') (get_prop body ''message'')] @ console st
         @ [Log_reply aiMessage (tokenCount_of (completion res))]
         @ (case saved of Inl dbErr \<Rightarrow> [Error_supabase_insert dbErr] | Inr v \<Rightarrow> [])
         @ (case added of Inl tokErr \<Rightarrow> [Error_addTokens tokErr] | Inr n \<Rightarrow> []),
       final_world = w5 \<rparr>"
  using assms truthy_not_nullish[OF v(1)]
  by (simp add: api_chat_def Let_def split: sum.splits)

lemma api_chat_200:
  assumes "response (api_chat deps cfg body w) = Json 200 b"
  shows "\<exists>used w1 res st m. getTokens deps w (get_prop body ''userId'') = (Inr used, w1)
     \<and> callOpenAIWithRetries (openai_create deps) (OPENAI_MODEL cfg)
              (get_prop body ''message'') w1 = (res, st)
     \<and> truthy (completion res) \<and> aiMessage_of (completion res) = Inr m
     \<and> get_prop b ''message'' = m
     \<and> client_calls (api_chat deps cfg body w) = calls st"
  using assms
  by (auto simp: api_chat_def server_error_def Let_def
        split: if_splits prod.splits sum.splits)


lemma api_chat_fixed:
  "api_chat (fixed_collaborators 0 insert_fails add_fails)
      \<lparr> OPENAI_MODEL = None, FREE_TOKEN_LIMIT = Some 100000 \<rparr>
      (JObj [(''userId'', JStr ''u1''), (''sessionId'', JStr ''s1''), (''message'', JStr ''hi'')])
      [Inr (completion_with '' Namaste '' 9)]
   = \<lparr> response =
         Json 200 (JObj [(''message'', JStr ''Namaste''), (''tokensUsed'', JNum 9),
                         (''totalTokens'', JNum 0)]),
       client_calls =
         [(request_for (JStr ''hi'') (plan (configured_model None) ! 0),
           Inr (completion_with '' Namaste '' 9))],
       printed =
         [Log_incoming (JStr ''u1'') (JStr ''hi'')]
         @ console (snd (callOpenAIWithRetries stub_client None (JStr ''hi'')
                           [Inr (completion_with '' Namaste '' 9)]))
         @ [Log_reply (JStr ''Namaste'') (JNum 9)]
         @ (if insert_fails then [Error_supabase_insert (Error ''db down'')] else [])
         @ (if add_fails then [Error_addTokens (Error ''ledger down'')] else []),
       final_world = [] \<rparr>"
proof -
  let ?c = "completion_with '' Namaste '' 9"
  let ?deps = "fixed_collaborators 0 insert_fails add_fails"
  let ?cfg = "\<lparr> OPENAI_MODEL = None, FREE_TOKEN_LIMIT = Some 100000 \<rparr>"
  let ?body = "JObj [(''userId'', JStr ''u1''), (''sessionId'', JStr ''s1''),
                     (''message'', JStr ''hi'')]"
  obtain res st where r: "callOpenAIWithRetries stub_client None (JStr ''hi'') [Inr ?c] = (res, st)"
    by (cases "callOpenAIWithRetries stub_client None (JStr ''hi'') [Inr ?c]")
  have ns: "nonempty_success (Inr ?c)" by (simp add: trim_def is_space_def)
  have "case callOpenAIWithRetries stub_client None (JStr ''hi'') [Inr ?c] of
      (res, st) \<Rightarrow> res = \<lparr> completion = ?c, modelUsed = Some ''gpt-4o-mini'', lastError = None \<rparr>
        \<and> calls st = [(request_for (JStr ''hi'') (plan (configured_model None) ! 0), Inr ?c)]
        \<and> world st = []"
    by (rule run_eval) (simp add: plan_default walk_stub_stop[OF ns] del: walk.simps)
  with r have res: "res = \<lparr> completion = ?c, modelUsed = Some ''gpt-4o-mini'', lastError = None \<rparr>"
    and cs: "calls st = [(request_for (JStr ''hi'') (plan (configured_model None) ! 0), Inr ?c)]"
    and ws: "world st = []" by simp_all
  have v: "truthy (get_prop ?body ''userId'')" "truthy (get_prop ?body ''message'')" by simp_all
  have g: "getTokens ?deps [Inr ?c] (get_prop ?body ''userId'') = (Inr 0, [Inr ?c])"
    by (simp add: fixed_collaborators_def)
  have q: "\<not> js_ge 0 (FREE_TOKEN_LIMIT ?cfg)" by (simp add: js_ge_def)
  have r': "callOpenAIWithRetries (openai_create ?deps) (OPENAI_MODEL ?cfg)
              (get_prop ?body ''message'') [Inr ?c] = (res, st)"
    using r by (simp add: fixed_collaborators_def)
  have s: "truthy (completion res)" by (simp add: res completion_with_def)
  have c: "aiMessage_of (completion res) = Inr (JStr ''Namaste'')"
    by (simp add: res aiMessage_of_def js_or_def trim_def is_space_def)
  have tc: "tokenCount_of (completion res) = JNum 9"
    by (simp add: res tokenCount_of_def completion_with_def js_or_def)
  have i: "insert_messages ?deps (world st)
              (message_rows (get_prop ?body ''sessionId'') (get_prop ?body ''message'')
                 (JStr ''Namaste'') (tokenCount_of (completion res)))
           = (if insert_fails then Inl (Error ''db down'') else Inr JNull, [])"
    by (simp add: fixed_collaborators_def ws)
  have a: "addTokens ?deps [] (get_prop ?body ''userId'') (tokenCount_of (completion res))
           = (if add_fails then Inl (Error ''ledger down'') else Inr 0, [])"
    by (simp add: fixed_collaborators_def)
  have tt: "getTokens ?deps [] (get_prop ?body ''userId'') = (Inr 0, [])"
    by (simp add: fixed_collaborators_def)
  from api_chat_success[OF v g q r' s c i a tt] r show ?thesis
    by (simp add: tc cs)
qed

section \<open>The success path\<close>

text \<open>
  Claim C10. Whenever \<^verbatim>\<open>callOpenAIWithRetries\<close> returns a completion that is not
  \<^verbatim>\<open>null\<close>, that completion is the client's reply to the last call made, the text
  extracted from it (\<^verbatim>\<open>choices[0].message.content\<close>, trimmed) is a non-empty string, and
  \<^verbatim>\<open>modelUsed\<close> is the model of that call, so not \<^verbatim>\<open>null\<close>. In the handler the
  expression that puts a placeholder in place of an empty text then yields the text
  itself: every answer the handler sends with status 200 carries as its message the
  non-empty trimmed text of the last reply of the client, and the placeholder branch is
  never taken.
\<close>

theorem success_has_text:
  "(case callOpenAIWithRetries openai env um w of
      (res, st) \<Rightarrow>
        completion res \<noteq> JNull \<longrightarrow>
          (\<exists>t. t \<noteq> [] \<and> candidate_of (completion res) = Inr (JStr t)
               \<and> aiMessage_of (completion res) = Inr (JStr t))
          \<and> truthy (completion res)
          \<and> modelUsed res \<noteq> None
          \<and> calls st \<noteq> []
          \<and> snd (last (calls st)) = Inr (completion res)
          \<and> modelUsed res = Some (model (fst (last (calls st)))))
   \<and> (response (api_chat deps cfg body w0) = Json 200 b \<longrightarrow>
        (\<exists>t c. t \<noteq> [] \<and> get_prop b ''message'' = JStr t
           \<and> client_calls (api_chat deps cfg body w0) \<noteq> []
           \<and> snd (last (client_calls (api_chat deps cfg body w0))) = Inr c
           \<and> candidate_of c = Inr (JStr t)
           \<and> aiMessage_of c = candidate_of c))"
proof (intro conjI impI)
  show "case callOpenAIWithRetries openai env um w of
      (res, st) \<Rightarrow>
        completion res \<noteq> JNull \<longrightarrow>
          (\<exists>t. t \<noteq> [] \<and> candidate_of (completion res) = Inr (JStr t)
               \<and> aiMessage_of (completion res) = Inr (JStr t))
          \<and> truthy (completion res)
          \<and> modelUsed res \<noteq> None
          \<and> calls st \<noteq> []
          \<and> snd (last (calls st)) = Inr (completion res)
          \<and> modelUsed res = Some (model (fst (last (calls st))))"
  proof (cases "callOpenAIWithRetries openai env um w")
    case (Pair res st)
    show ?thesis
    proof (cases "completion res = JNull")
      case True
      with Pair show ?thesis by simp
    next
      case False
      from run_success_text[OF Pair False] Pair show ?thesis by simp
    qed
  qed
next
  assume "response (api_chat deps cfg body w0) = Json 200 b"
  from api_chat_200[OF this] obtain used w1 res st m where
    r: "callOpenAIWithRetries (openai_create deps) (OPENAI_MODEL cfg)
              (get_prop body ''message'') w1 = (res, st)"
    and s: "truthy (completion res)" and a: "aiMessage_of (completion res) = Inr m"
    and m: "get_prop b ''message'' = m"
    and cc: "client_calls (api_chat deps cfg body w0) = calls st" by blast
  from s have nn: "completion res \<noteq> JNull" by auto
  from run_success_text[OF r nn] a obtain t where
    t: "t \<noteq> []" "candidate_of (completion res) = Inr (JStr t)" "m = JStr t"
    and l: "calls st \<noteq> []" "snd (last (calls st)) = Inr (completion res)"
    by auto
  with a m cc show "\<exists>t c. t \<noteq> [] \<and> get_prop b ''message'' = JStr t
           \<and> client_calls (api_chat deps cfg body w0) \<noteq> []
           \<and> snd (last (client_calls (api_chat deps cfg body w0))) = Inr c
           \<and> candidate_of c = Inr (JStr t)
           \<and> aiMessage_of c = candidate_of c"
    by auto
qed


theorem success_has_text_witness:
  "(case callOpenAIWithRetries stub_client None (JStr ''hi'')
            [Inr (completion_with '' Namaste '' 9)] of
      (res, st) \<Rightarrow>
        completion res \<noteq> JNull
        \<and> candidate_of (completion res) = Inr (JStr ''Namaste'')
        \<and> aiMessage_of (completion res) = Inr (JStr ''Namaste'')
        \<and> modelUsed res \<noteq> None
        \<and> snd (last (calls st)) = Inr (completion res))
   \<and> response
        (api_chat (fixed_collaborators 0 False False)
           \<lparr> OPENAI_MODEL = None, FREE_TOKEN_LIMIT = Some 100000 \<rparr>
           (JObj [(''userId'', JStr ''u1''), (''sessionId'', JStr ''s1''),
                  (''message'', JStr ''hi'')])
           [Inr (completion_with '' Namaste '' 9)])
       = Json 200 (JObj [(''message'', JStr ''Namaste''), (''tokensUsed'', JNum 9),
                         (''totalTokens'', JNum 0)])
   \<and> (\<exists>t c. t \<noteq> []
         \<and> get_prop (JObj [(''message'', JStr ''Namaste''), (''tokensUsed'', JNum 9),
                            (''totalTokens'', JNum 0)]) ''message'' = JStr t
         \<and> snd (last (client_calls
               (api_chat (fixed_collaborators 0 False False)
                  \<lparr> OPENAI_MODEL = None, FREE_TOKEN_LIMIT = Some 100000 \<rparr>
                  (JObj [(''userId'', JStr ''u1''), (''sessionId'', JStr ''s1''),
                         (''message'', JStr ''hi'')])
                  [Inr (completion_with '' Namaste '' 9)]))) = Inr c
         \<and> candidate_of c = Inr (JStr t))"
proof -
  let ?c = "completion_with '' Namaste '' 9"
  let ?deps = "fixed_collaborators 0 False False"
  let ?cfg = "\<lparr> OPENAI_MODEL = None, FREE_TOKEN_LIMIT = Some 100000 \<rparr>"
  let ?body = "JObj [(''userId'', JStr ''u1''), (''sessionId'', JStr ''s1''),
                     (''message'', JStr ''hi'')]"
  let ?b = "JObj [(''message'', JStr ''Namaste''), (''tokensUsed'', JNum 9),
                  (''totalTokens'', JNum 0)]"
  note t = success_has_text[where openai = stub_client and env = None and um = "JStr ''hi''"
      and w = "[Inr ?c]" and deps = ?deps and cfg = ?cfg and body = ?body
      and ?w0.0 = "[Inr ?c]" and b = ?b]
  have ns: "nonempty_success (Inr ?c)" by (simp add: trim_def is_space_def)
  have ev: "case callOpenAIWithRetries stub_client None (JStr ''hi'') [Inr ?c] of
      (res, st) \<Rightarrow> res = \<lparr> completion = ?c, modelUsed = Some ''gpt-4o-mini'', lastError = None \<rparr>
        \<and> calls st = [(request_for (JStr ''hi'') (plan (configured_model None) ! 0), Inr ?c)]
        \<and> world st = []"
    by (rule run_eval) (simp add: plan_default walk_stub_stop[OF ns] del: walk.simps)
  have tr: "trim '' Namaste '' = ''Namaste''" by (simp add: trim_def is_space_def)
  obtain res st where p: "callOpenAIWithRetries stub_client None (JStr ''hi'') [Inr ?c] = (res, st)"
    by (cases "callOpenAIWithRetries stub_client None (JStr ''hi'') [Inr ?c]")
  from ev p have res: "res = \<lparr> completion = ?c, modelUsed = Some ''gpt-4o-mini'', lastError = None \<rparr>"
    by simp
  have nn: "completion res \<noteq> JNull" by (simp add: res completion_with_def)
  have ca: "candidate_of (completion res) = Inr (JStr ''Namaste'')" by (simp add: res tr)
  then have ai: "aiMessage_of (completion res) = Inr (JStr ''Namaste'')"
    by (simp add: aiMessage_of_def js_or_def)
  from t[THEN conjunct1] p nn
  have "modelUsed res \<noteq> None \<and> snd (last (calls st)) = Inr (completion res)"
    by simp
  with nn ca ai p
  have a: "case callOpenAIWithRetries stub_client None (JStr ''hi'') [Inr ?c] of
      (res, st) \<Rightarrow>
        completion res \<noteq> JNull
        \<and> candidate_of (completion res) = Inr (JStr ''Namaste'')
        \<and> aiMessage_of (completion res) = Inr (JStr ''Namaste'')
        \<and> modelUsed res \<noteq> None
        \<and> snd (last (calls st)) = Inr (completion res)"
    by simp
  have r: "response (api_chat ?deps ?cfg ?body [Inr ?c]) = Json 200 ?b"
    by (simp add: api_chat_fixed)
  from mp[OF t[THEN conjunct2] r]
  have "\<exists>t c. t \<noteq> [] \<and> get_prop ?b ''message'' = JStr t
         \<and> snd (last (client_calls (api_chat ?deps ?cfg ?body [Inr ?c]))) = Inr c
         \<and> candidate_of c = Inr (JStr t)"
    by blast
  with a r show ?thesis by blast
qed

section \<open>Failures of the persistence writes\<close>

text \<open>
  Claim C8. In the handler that calls the orchestrator, each of the two writes is in a
  \<^verbatim>\<open>try\<close> of its own: whatever the message store and the ledger do once the
  orchestrator has succeeded, the handler answers 200 with the text, and a write that
  rejects leaves its error on the console (lemma \<open>api_chat_success\<close>). The handler of
  \<^verbatim>\<open>index.js\<close> awaits the same two writes inside the one \<^verbatim>\<open>try\<close> of the whole
  handler: there a rejected write is answered with status 500 and
  \<^verbatim>\<open>server_error\<close>, and the answer of the model is lost.

  The requests below come from a user under the limit and get the completion
  \<^verbatim>\<open>" Namaste "\<close> from the client. When the insert rejects with \<^verbatim>\<open>db down\<close>, or the
  ledger update with \<^verbatim>\<open>ledger down\<close>, the handler of \<^verbatim>\<open>index.js\<close> answers 500 (and
  200 when both succeed), while the other handler answers 200 with the text even when
  both fail, and prints both errors.
\<close>

theorem index_js_persistence_failure_escalates:
  "response
     (index_js_api_chat (fixed_collaborators 0 True False)
        \<lparr> OPENAI_MODEL = None, FREE_TOKEN_LIMIT = Some 100000 \<rparr>
        (JObj [(''userId'', JStr ''u1''), (''sessionId'', JStr ''s1''), (''message'', JStr ''hi'')])
        [Inr (completion_with '' Namaste '' 9)])
     = Json 500 (JObj [(''error'', JStr ''server_error''), (''details'', JStr ''db down'')])
   \<and> response
     (index_js_api_chat (fixed_collaborators 0 False True)
        \<lparr> OPENAI_MODEL = None, FREE_TOKEN_LIMIT = Some 100000 \<rparr>
        (JObj [(''userId'', JStr ''u1''), (''sessionId'', JStr ''s1''), (''message'', JStr ''hi'')])
        [Inr (completion_with '' Namaste '' 9)])
     = Json 500 (JObj [(''error'', JStr ''server_error''), (''details'', JStr ''ledger down'')])
   \<and> response
     (index_js_api_chat (fixed_collaborators 0 False False)
        \<lparr> OPENAI_MODEL = None, FREE_TOKEN_LIMIT = Some 100000 \<rparr>
        (JObj [(''userId'', JStr ''u1''), (''sessionId'', JStr ''s1''), (''message'', JStr ''hi'')])
        [Inr (completion_with '' Namaste '' 9)])
     = Json 200 (JObj [(''message'', JStr ''Namaste''), (''tokensUsed'', JNum 9),
                       (''totalTokens'', JNum 0)])
   \<and> response
     (api_chat (fixed_collaborators 0 True True)
        \<lparr> OPENAI_MODEL = None, FREE_TOKEN_LIMIT = Some 100000 \<rparr>
        (JObj [(''userId'', JStr ''u1''), (''sessionId'', JStr ''s1''), (''message'', JStr ''hi'')])
        [Inr (completion_with '' Namaste '' 9)])
     = Json 200 (JObj [(''message'', JStr ''Namaste''), (''tokensUsed'', JNum 9),
                       (''totalTokens'', JNum 0)])
   \<and> Error_supabase_insert (Error ''db down'')
       \<in> set (printed
            (api_chat (fixed_collaborators 0 True True)
               \<lparr> OPENAI_MODEL = None, FREE_TOKEN_LIMIT = Some 100000 \<rparr>
               (JObj [(''userId'', JStr ''u1''), (''sessionId'', JStr ''s1''),
                      (''message'', JStr ''hi'')])
               [Inr (completion_with '' Namaste '' 9)]))
   \<and> Error_addTokens (Error ''ledger down'')
       \<in> set (printed
            (api_chat (fixed_collaborators 0 True True)
               \<lparr> OPENAI_MODEL = None, FREE_TOKEN_LIMIT = Some 100000 \<rparr>
               (JObj [(''userId'', JStr ''u1''), (''sessionId'', JStr ''s1''),
                      (''message'', JStr ''hi'')])
               [Inr (completion_with '' Namaste '' 9)]))"
proof -
  have tr: "trim '' Namaste '' = ''Namaste''" by (simp add: trim_def is_space_def)
  have ix: "response
     (index_js_api_chat (fixed_collaborators 0 fi fa)
        \<lparr> OPENAI_MODEL = None, FREE_TOKEN_LIMIT = Some 100000 \<rparr>
        (JObj [(''userId'', JStr ''u1''), (''sessionId'', JStr ''s1''), (''message'', JStr ''hi'')])
        [Inr (completion_with '' Namaste '' 9)])
     = (if fi then Json 500 (JObj [(''error'', JStr ''server_error''), (''details'', JStr ''db down'')])
        else if fa then Json 500 (JObj [(''error'', JStr ''server_error''),
                                        (''details'', JStr ''ledger down'')])
        else Json 200 (JObj [(''message'', JStr ''Namaste''), (''tokensUsed'', JNum 9),
                             (''totalTokens'', JNum 0)]))" for fi fa
    by (simp add: index_js_api_chat_def index_js_server_error_def index_js_params_def
          fixed_collaborators_def stub_client_def configured_model_def js_ge_def Let_def
          tokenCount_of_def js_or_def tr)
       (simp add: completion_with_def)
  show ?thesis
    by (simp add: ix api_chat_fixed)
qed

text \<open>The request of these evaluations passes the handler's check of its fields, and the
  two handlers answer it differently when the insert rejects.\<close>

theorem index_js_persistence_failure_escalates_witness:
  "truthy (get_prop (JObj [(''userId'', JStr ''u1''), (''sessionId'', JStr ''s1''),
                           (''message'', JStr ''hi'')]) ''userId'')
   \<and> truthy (get_prop (JObj [(''userId'', JStr ''u1''), (''sessionId'', JStr ''s1''),
                              (''message'', JStr ''hi'')]) ''message'')
   \<and> response
        (index_js_api_chat (fixed_collaborators 0 True False)
           \<lparr> OPENAI_MODEL = None, FREE_TOKEN_LIMIT = Some 100000 \<rparr>
           (JObj [(''userId'', JStr ''u1''), (''sessionId'', JStr ''s1''),
                  (''message'', JStr ''hi'')])
           [Inr (completion_with '' Namaste '' 9)])
       \<noteq> response
        (api_chat (fixed_collaborators 0 True True)
           \<lparr> OPENAI_MODEL = None, FREE_TOKEN_LIMIT = Some 100000 \<rparr>
           (JObj [(''userId'', JStr ''u1''), (''sessionId'', JStr ''s1''),
                  (''message'', JStr ''hi'')])
           [Inr (completion_with '' Namaste '' 9)])"
  using index_js_persistence_failure_escalates by simp

end
